theory Spec2Isabelle
  imports Main "HOL-Library.Word"
begin

section \<open>Signal algebra (otlp/partition.go)\<close>

subsection \<open>Traces\<close>

text \<open>
  The containers are the protobuf messages of the trace signal.  The resource, the
  instrumentation scope and the span are opaque to partition.go (it only copies the
  pointers), so they are type parameters.  Entries of the slices are taken non-nil.
\<close>

record ('sc, 'sp) ScopeSpans =
  ss_Scope :: 'sc
  ss_Spans :: "'sp list"
  ss_SchemaUrl :: string

record ('r, 'sc, 'sp) ResourceSpans =
  rs_Resource :: 'r
  rs_ScopeSpans :: "('sc, 'sp) ScopeSpans list"
  rs_SchemaUrl :: string

fun TotalSpans :: "('r, 'sc, 'sp) ResourceSpans list \<Rightarrow> nat" where
  "TotalSpans [] = 0"
| "TotalSpans (elem # src) =
     sum_list (map (\<lambda>elemScopeSpan. length (ss_Spans elemScopeSpan)) (rs_ScopeSpans elem))
     + TotalSpans src"

fun splitScopeSpans :: "('sc, 'sp) ScopeSpans list \<Rightarrow> ('sc, 'sp) ScopeSpans list" where
  "splitScopeSpans [] = []"
| "splitScopeSpans (elem # src) =
     map (\<lambda>elemSpan. \<lparr>ss_Scope = ss_Scope elem, ss_Spans = [elemSpan],
                       ss_SchemaUrl = ss_SchemaUrl elem\<rparr>) (ss_Spans elem)
     @ splitScopeSpans src"

fun SplitResourceSpans :: "('r, 'sc, 'sp) ResourceSpans list \<Rightarrow> ('r, 'sc, 'sp) ResourceSpans list" where
  "SplitResourceSpans [] = []"
| "SplitResourceSpans (elem # src) =
     map (\<lambda>elemScopeSpan. \<lparr>rs_Resource = rs_Resource elem, rs_ScopeSpans = [elemScopeSpan],
                            rs_SchemaUrl = rs_SchemaUrl elem\<rparr>)
         (splitScopeSpans (rs_ScopeSpans elem))
     @ SplitResourceSpans src"

text \<open>andFilter: the loop returns false at the first filter that rejects.\<close>

fun andFilter :: "('r \<Rightarrow> 'sc \<Rightarrow> 't \<Rightarrow> bool) list \<Rightarrow> 'r \<Rightarrow> 'sc \<Rightarrow> 't \<Rightarrow> bool" where
  "andFilter [] r s t = True"
| "andFilter (f # filters) r s t = (if \<not> f r s t then False else andFilter filters r s t)"

definition FilterResourceSpans ::
  "('r, 'sc, 'sp) ResourceSpans list \<Rightarrow> ('r \<Rightarrow> 'sc \<Rightarrow> 'sp \<Rightarrow> bool) list
     \<Rightarrow> ('r, 'sc, 'sp) ResourceSpans list" where
  "FilterResourceSpans src filters =
     (let filter = andFilter filters;
          splited = SplitResourceSpans src
      in concat (map (\<lambda>elem.
           concat (map (\<lambda>elemScopeSpan.
             concat (map (\<lambda>elemSpan.
               if filter (rs_Resource elem) (ss_Scope elemScopeSpan) elemSpan then [elem] else [])
               (ss_Spans elemScopeSpan)))
             (rs_ScopeSpans elem)))
           splited))"

subsection \<open>Logs\<close>

record ('sc, 'lr) ScopeLogs =
  sl_Scope :: 'sc
  sl_LogRecords :: "'lr list"
  sl_SchemaUrl :: string

record ('r, 'sc, 'lr) ResourceLogs =
  rl_Resource :: 'r
  rl_ScopeLogs :: "('sc, 'lr) ScopeLogs list"
  rl_SchemaUrl :: string

fun TotalLogRecords :: "('r, 'sc, 'lr) ResourceLogs list \<Rightarrow> nat" where
  "TotalLogRecords [] = 0"
| "TotalLogRecords (elem # src) =
     sum_list (map (\<lambda>elemScopeLogs. length (sl_LogRecords elemScopeLogs)) (rl_ScopeLogs elem))
     + TotalLogRecords src"

fun splitScopeLogs :: "('sc, 'lr) ScopeLogs list \<Rightarrow> ('sc, 'lr) ScopeLogs list" where
  "splitScopeLogs [] = []"
| "splitScopeLogs (elem # src) =
     map (\<lambda>elemLogRecord. \<lparr>sl_Scope = sl_Scope elem, sl_LogRecords = [elemLogRecord],
                            sl_SchemaUrl = sl_SchemaUrl elem\<rparr>) (sl_LogRecords elem)
     @ splitScopeLogs src"

fun SplitResourceLogs :: "('r, 'sc, 'lr) ResourceLogs list \<Rightarrow> ('r, 'sc, 'lr) ResourceLogs list" where
  "SplitResourceLogs [] = []"
| "SplitResourceLogs (elem # src) =
     map (\<lambda>elemScopeLogs. \<lparr>rl_Resource = rl_Resource elem, rl_ScopeLogs = [elemScopeLogs],
                            rl_SchemaUrl = rl_SchemaUrl elem\<rparr>)
         (splitScopeLogs (rl_ScopeLogs elem))
     @ SplitResourceLogs src"

definition FilterResourceLogs ::
  "('r, 'sc, 'lr) ResourceLogs list \<Rightarrow> ('r \<Rightarrow> 'sc \<Rightarrow> 'lr \<Rightarrow> bool) list
     \<Rightarrow> ('r, 'sc, 'lr) ResourceLogs list" where
  "FilterResourceLogs src filters =
     (let filter = andFilter filters;
          splited = SplitResourceLogs src
      in concat (map (\<lambda>elem.
           concat (map (\<lambda>elemScopeLogs.
             concat (map (\<lambda>elemLogRecord.
               if filter (rl_Resource elem) (sl_Scope elemScopeLogs) elemLogRecord then [elem] else [])
               (sl_LogRecords elemScopeLogs)))
             (rl_ScopeLogs elem)))
           splited))"

subsection \<open>Metrics\<close>

text \<open>
  The \<open>Data\<close> field of a metric is a oneof over the five point shapes; \<open>NoData\<close> is the
  unset oneof (a nil interface).  A oneof wrapper holding a nil message has no data
  points under the getters, which is the shape with the empty list.  The data point
  messages are opaque to partition.go: one type parameter stands for them.  The
  aggregation temporality is the enum's number.
\<close>

datatype 'dp metric_data =
    NoData
  | Metric_Gauge "'dp list"
  | Metric_Sum "'dp list" int bool
  | Metric_Summary "'dp list"
  | Metric_Histogram "'dp list" int
  | Metric_ExponentialHistogram "'dp list" int

record ('md, 'dp) Metric =
  m_Name :: string
  m_Description :: string
  m_Unit :: string
  m_Metadata :: 'md
  m_Data :: "'dp metric_data"

record ('sc, 'md, 'dp) ScopeMetrics =
  sm_Scope :: 'sc
  sm_Metrics :: "('md, 'dp) Metric list"
  sm_SchemaUrl :: string

record ('r, 'sc, 'md, 'dp) ResourceMetrics =
  rm_Resource :: 'r
  rm_ScopeMetrics :: "('sc, 'md, 'dp) ScopeMetrics list"
  rm_SchemaUrl :: string

fun TotalDataPoints :: "('r, 'sc, 'md, 'dp) ResourceMetrics list \<Rightarrow> nat" where
  "TotalDataPoints [] = 0"
| "TotalDataPoints (elem # src) =
     sum_list (map (\<lambda>elemScopeMetric.
       sum_list (map (\<lambda>elemMetric.
         (case m_Data elemMetric of
            Metric_Gauge dps \<Rightarrow> length dps
          | Metric_Summary dps \<Rightarrow> length dps
          | Metric_Sum dps at isMonotonic \<Rightarrow> length dps
          | Metric_Histogram dps at \<Rightarrow> length dps
          | Metric_ExponentialHistogram dps at \<Rightarrow> length dps
          | NoData \<Rightarrow> 0))
         (sm_Metrics elemScopeMetric)))
       (rm_ScopeMetrics elem))
     + TotalDataPoints src"

fun splitMetrics :: "('md, 'dp) Metric list \<Rightarrow> ('md, 'dp) Metric list" where
  "splitMetrics [] = []"
| "splitMetrics (elem # src) =
     (case m_Data elem of
        Metric_Gauge dps \<Rightarrow>
          map (\<lambda>elemDataPoint. \<lparr>m_Name = m_Name elem, m_Description = m_Description elem,
                 m_Unit = m_Unit elem, m_Metadata = m_Metadata elem,
                 m_Data = Metric_Gauge [elemDataPoint]\<rparr>) dps
      | Metric_Sum dps at isMonotonic \<Rightarrow>
          map (\<lambda>elemDataPoint. \<lparr>m_Name = m_Name elem, m_Description = m_Description elem,
                 m_Unit = m_Unit elem, m_Metadata = m_Metadata elem,
                 m_Data = Metric_Sum [elemDataPoint] at isMonotonic\<rparr>) dps
      | Metric_Summary dps \<Rightarrow>
          map (\<lambda>elemDataPoint. \<lparr>m_Name = m_Name elem, m_Description = m_Description elem,
                 m_Unit = m_Unit elem, m_Metadata = m_Metadata elem,
                 m_Data = Metric_Summary [elemDataPoint]\<rparr>) dps
      | Metric_Histogram dps at \<Rightarrow>
          map (\<lambda>elemDataPoint. \<lparr>m_Name = m_Name elem, m_Description = m_Description elem,
                 m_Unit = m_Unit elem, m_Metadata = m_Metadata elem,
                 m_Data = Metric_Histogram [elemDataPoint] at\<rparr>) dps
      | Metric_ExponentialHistogram dps at \<Rightarrow>
          map (\<lambda>elemDataPoint. \<lparr>m_Name = m_Name elem, m_Description = m_Description elem,
                 m_Unit = m_Unit elem, m_Metadata = m_Metadata elem,
                 m_Data = Metric_ExponentialHistogram [elemDataPoint] at\<rparr>) dps
      | NoData \<Rightarrow> [])
     @ splitMetrics src"

fun splitScopeMetrics :: "('sc, 'md, 'dp) ScopeMetrics list \<Rightarrow> ('sc, 'md, 'dp) ScopeMetrics list" where
  "splitScopeMetrics [] = []"
| "splitScopeMetrics (elem # src) =
     map (\<lambda>elemMetric. \<lparr>sm_Scope = sm_Scope elem, sm_Metrics = [elemMetric],
                         sm_SchemaUrl = sm_SchemaUrl elem\<rparr>) (splitMetrics (sm_Metrics elem))
     @ splitScopeMetrics src"

fun SplitResourceMetrics ::
  "('r, 'sc, 'md, 'dp) ResourceMetrics list \<Rightarrow> ('r, 'sc, 'md, 'dp) ResourceMetrics list" where
  "SplitResourceMetrics [] = []"
| "SplitResourceMetrics (elem # src) =
     map (\<lambda>elemScopeMetric. \<lparr>rm_Resource = rm_Resource elem, rm_ScopeMetrics = [elemScopeMetric],
                              rm_SchemaUrl = rm_SchemaUrl elem\<rparr>)
         (splitScopeMetrics (rm_ScopeMetrics elem))
     @ SplitResourceMetrics src"

definition FilterResourceMetrics ::
  "('r, 'sc, 'md, 'dp) ResourceMetrics list \<Rightarrow> ('r \<Rightarrow> 'sc \<Rightarrow> ('md, 'dp) Metric \<Rightarrow> bool) list
     \<Rightarrow> ('r, 'sc, 'md, 'dp) ResourceMetrics list" where
  "FilterResourceMetrics src filters =
     (let filter = andFilter filters;
          splited = SplitResourceMetrics src
      in concat (map (\<lambda>elem.
           concat (map (\<lambda>elemScopeMetric.
             concat (map (\<lambda>elemMetric.
               if filter (rm_Resource elem) (sm_Scope elemScopeMetric) elemMetric then [elem] else [])
               (sm_Metrics elemScopeMetric)))
             (rm_ScopeMetrics elem)))
           splited))"

subsection \<open>Append and Partition\<close>












subsection \<open>Notions used to state the properties of Split and Filter\<close>

text \<open>
  The data points held by a point shape, and the shape with its data points replaced
  (kind, aggregation temporality and monotonicity kept).
\<close>

fun GetDataPoints :: "'dp metric_data \<Rightarrow> 'dp list" where
  "GetDataPoints NoData = []"
| "GetDataPoints (Metric_Gauge dps) = dps"
| "GetDataPoints (Metric_Sum dps at isMonotonic) = dps"
| "GetDataPoints (Metric_Summary dps) = dps"
| "GetDataPoints (Metric_Histogram dps at) = dps"
| "GetDataPoints (Metric_ExponentialHistogram dps at) = dps"

fun withDataPoints :: "'dp metric_data \<Rightarrow> 'dp list \<Rightarrow> 'dp metric_data" where
  "withDataPoints NoData ps = NoData"
| "withDataPoints (Metric_Gauge dps) ps = Metric_Gauge ps"
| "withDataPoints (Metric_Sum dps at isMonotonic) ps = Metric_Sum ps at isMonotonic"
| "withDataPoints (Metric_Summary dps) ps = Metric_Summary ps"
| "withDataPoints (Metric_Histogram dps at) ps = Metric_Histogram ps at"
| "withDataPoints (Metric_ExponentialHistogram dps at) ps = Metric_ExponentialHistogram ps at"

text \<open>Every leaf of a tree passes every filter, called with the tree's resource and the
  scope of the leaf's envelope.\<close>

definition spanLeavesPass ::
  "('r \<Rightarrow> 'sc \<Rightarrow> 'sp \<Rightarrow> bool) list \<Rightarrow> ('r, 'sc, 'sp) ResourceSpans \<Rightarrow> bool" where
  "spanLeavesPass filters t =
     list_all (\<lambda>s. list_all (\<lambda>sp. list_all (\<lambda>f. f (rs_Resource t) (ss_Scope s) sp) filters)
                 (ss_Spans s)) (rs_ScopeSpans t)"

definition metricLeavesPass ::
  "('r \<Rightarrow> 'sc \<Rightarrow> ('md, 'dp) Metric \<Rightarrow> bool) list \<Rightarrow> ('r, 'sc, 'md, 'dp) ResourceMetrics \<Rightarrow> bool" where
  "metricLeavesPass filters t =
     list_all (\<lambda>s. list_all (\<lambda>m. list_all (\<lambda>f. f (rm_Resource t) (sm_Scope s) m) filters)
                 (sm_Metrics s)) (rm_ScopeMetrics t)"

definition logLeavesPass ::
  "('r \<Rightarrow> 'sc \<Rightarrow> 'lr \<Rightarrow> bool) list \<Rightarrow> ('r, 'sc, 'lr) ResourceLogs \<Rightarrow> bool" where
  "logLeavesPass filters t =
     list_all (\<lambda>s. list_all (\<lambda>lr. list_all (\<lambda>f. f (rl_Resource t) (sl_Scope s) lr) filters)
                 (sl_LogRecords s)) (rl_ScopeLogs t)"

text \<open>
  The leaves of an input, listed from the input itself in pre-order of the nesting, each
  with what surrounds it: the resource and schema URL of its resource envelope and the
  scope and schema URL of its scope envelope.  The leaf of the metrics signal is a data
  point inside the metric it belongs to (\<open>pointMetrics\<close>: the metric once for each of its
  data points, holding that point alone).  \<open>spanTree\<close>, \<open>metricTree\<close> and \<open>logTree\<close>
  are the one-leaf tree of a leaf; \<open>spanLeafPasses\<close> and its siblings say that a leaf
  passes every filter.
\<close>

type_synonym ('r, 'sc, 'x) leaf = "'r \<times> string \<times> 'sc \<times> string \<times> 'x"

definition spanLeaves :: "('r, 'sc, 'sp) ResourceSpans list \<Rightarrow> ('r, 'sc, 'sp) leaf list" where
  "spanLeaves L =
     concat (map (\<lambda>elem. concat (map (\<lambda>s.
        map (\<lambda>sp. (rs_Resource elem, rs_SchemaUrl elem, ss_Scope s, ss_SchemaUrl s, sp))
            (ss_Spans s)) (rs_ScopeSpans elem))) L)"

fun spanTree :: "('r, 'sc, 'sp) leaf \<Rightarrow> ('r, 'sc, 'sp) ResourceSpans" where
  "spanTree (r, u, sc, v, sp) =
     \<lparr>rs_Resource = r,
      rs_ScopeSpans = [\<lparr>ss_Scope = sc, ss_Spans = [sp], ss_SchemaUrl = v\<rparr>],
      rs_SchemaUrl = u\<rparr>"

fun spanLeafPasses :: "('r \<Rightarrow> 'sc \<Rightarrow> 'sp \<Rightarrow> bool) list \<Rightarrow> ('r, 'sc, 'sp) leaf \<Rightarrow> bool" where
  "spanLeafPasses filters (r, u, sc, v, sp) = list_all (\<lambda>f. f r sc sp) filters"

definition logLeaves :: "('r, 'sc, 'lr) ResourceLogs list \<Rightarrow> ('r, 'sc, 'lr) leaf list" where
  "logLeaves L =
     concat (map (\<lambda>elem. concat (map (\<lambda>s.
        map (\<lambda>lr. (rl_Resource elem, rl_SchemaUrl elem, sl_Scope s, sl_SchemaUrl s, lr))
            (sl_LogRecords s)) (rl_ScopeLogs elem))) L)"

fun logTree :: "('r, 'sc, 'lr) leaf \<Rightarrow> ('r, 'sc, 'lr) ResourceLogs" where
  "logTree (r, u, sc, v, lr) =
     \<lparr>rl_Resource = r,
      rl_ScopeLogs = [\<lparr>sl_Scope = sc, sl_LogRecords = [lr], sl_SchemaUrl = v\<rparr>],
      rl_SchemaUrl = u\<rparr>"

fun logLeafPasses :: "('r \<Rightarrow> 'sc \<Rightarrow> 'lr \<Rightarrow> bool) list \<Rightarrow> ('r, 'sc, 'lr) leaf \<Rightarrow> bool" where
  "logLeafPasses filters (r, u, sc, v, lr) = list_all (\<lambda>f. f r sc lr) filters"

definition pointMetrics :: "('md, 'dp) Metric \<Rightarrow> ('md, 'dp) Metric list" where
  "pointMetrics m =
     map (\<lambda>dp. \<lparr>m_Name = m_Name m, m_Description = m_Description m, m_Unit = m_Unit m,
                 m_Metadata = m_Metadata m, m_Data = withDataPoints (m_Data m) [dp]\<rparr>)
         (GetDataPoints (m_Data m))"

definition metricLeaves ::
  "('r, 'sc, 'md, 'dp) ResourceMetrics list \<Rightarrow> ('r, 'sc, ('md, 'dp) Metric) leaf list" where
  "metricLeaves L =
     concat (map (\<lambda>elem. concat (map (\<lambda>s. concat (map (\<lambda>m.
        map (\<lambda>pm. (rm_Resource elem, rm_SchemaUrl elem, sm_Scope s, sm_SchemaUrl s, pm))
            (pointMetrics m)) (sm_Metrics s))) (rm_ScopeMetrics elem))) L)"

fun metricTree :: "('r, 'sc, ('md, 'dp) Metric) leaf \<Rightarrow> ('r, 'sc, 'md, 'dp) ResourceMetrics" where
  "metricTree (r, u, sc, v, pm) =
     \<lparr>rm_Resource = r,
      rm_ScopeMetrics = [\<lparr>sm_Scope = sc, sm_Metrics = [pm], sm_SchemaUrl = v\<rparr>],
      rm_SchemaUrl = u\<rparr>"

fun metricLeafPasses ::
  "('r \<Rightarrow> 'sc \<Rightarrow> ('md, 'dp) Metric \<Rightarrow> bool) list \<Rightarrow> ('r, 'sc, ('md, 'dp) Metric) leaf \<Rightarrow> bool" where
  "metricLeafPasses filters (r, u, sc, v, pm) = list_all (\<lambda>f. f r sc pm) filters"

section \<open>Server multiplexer and HTTP bridge (otlp/mux.go, otlp/proxy.go)\<close>

subsection \<open>Status, errors, contexts, handlers\<close>

text \<open>
  The gRPC status codes, in the order of their numbers; \<open>CodeOther\<close> is any number
  without a name.
\<close>

datatype code =
    OK | Canceled | Unknown | InvalidArgument | DeadlineExceeded | NotFound | AlreadyExists
  | PermissionDenied | ResourceExhausted | FailedPrecondition | Aborted | OutOfRange
  | Unimplemented | Internal | Unavailable | DataLoss | Unauthenticated | CodeOther nat

record status =
  st_Code :: code
  st_Message :: string
  st_Details :: "string list"

text \<open>
  A Go \<open>error\<close> either carries a gRPC status (\<open>status.FromError\<close> succeeds) or is a
  plain error with its text.
\<close>

datatype err = StatusErr status | PlainErr string

text \<open>
  What a call produces: Go's \<open>(value, nil)\<close>, Go's \<open>(_, err)\<close> with a non-nil error (the
  code below never reads the value then), or a panic.
\<close>

datatype 'a outcome = Return 'a | Fail err | Panic

text \<open>
  A context is the chain of the contexts it was derived from, newest first:
  \<open>context.WithValue\<close> and \<open>metadata.NewIncomingContext\<close> each put one link in
  front.  Deadlines and cancellation are left out.
\<close>

datatype ctx_link = WithValue string string | IncomingMD "(string \<times> string list) list"

type_synonym Context = "ctx_link list"

type_synonym ('a, 'b) handler = "Context \<Rightarrow> 'a \<Rightarrow> 'b outcome"

text \<open>
  \<open>proto.Message\<close>, the erased message the cross-signal middleware sees: the request
  or the response of the entry's signal, or a message of another type.
\<close>

datatype ('req, 'resp) Message = Request 'req | Response 'resp | OtherMessage string

type_synonym ('req, 'resp) ProtoHandlerFunc = "(('req, 'resp) Message, ('req, 'resp) Message) handler"

type_synonym ('req, 'resp) MiddlewareFunc =
  "('req, 'resp) ProtoHandlerFunc \<Rightarrow> ('req, 'resp) ProtoHandlerFunc"

subsection \<open>Entries and the multiplexer\<close>

text \<open>
  \<open>traceEntry\<close>, \<open>metricsEntry\<close> and \<open>logsEntry\<close> are the same code up to the names
  of the request and response types, which are the type parameters here.  \<open>e_h\<close> is
  the handler, \<open>None\<close> while it is nil.
\<close>

record ('req, 'resp) entry =
  e_middlewares :: "(('req, 'resp) handler \<Rightarrow> ('req, 'resp) handler) list"
  e_h :: "('req, 'resp) handler option"

datatype signal = Traces | Metrics | Logs

fun signalPath :: "signal \<Rightarrow> string" where
  "signalPath Traces = ''/v1/traces''"
| "signalPath Metrics = ''/v1/metrics''"
| "signalPath Logs = ''/v1/logs''"

text \<open>
  \<open>httpMux\<close> is the route table of the \<open>http.ServeMux\<close>: the registered patterns with
  the entry each leads to.  The three patterns have no trailing slash and no wildcard: a
  request matches on its whole path.
\<close>

record ('req, 'resp) ServerMux =
  mux_httpMux :: "(string \<times> signal) list"
  mux_entries :: "signal \<Rightarrow> ('req, 'resp) entry option"
  mux_middlewares :: "('req, 'resp) MiddlewareFunc list"

definition NewServerMux :: "('req, 'resp) ServerMux" where
  "NewServerMux = \<lparr>mux_httpMux = [], mux_entries = (\<lambda>s. None), mux_middlewares = []\<rparr>"

definition Use :: "('req, 'resp) ServerMux \<Rightarrow> ('req, 'resp) MiddlewareFunc list \<Rightarrow> ('req, 'resp) ServerMux" where
  "Use mux m = mux\<lparr>mux_middlewares := mux_middlewares mux @ m\<rparr>"

text \<open>
  \<open>Trace()\<close>, \<open>Metrics()\<close>, \<open>Logs()\<close>: the entry of the signal, created with its route
  on first use (\<open>newTraceEntry\<close> and its siblings).
\<close>

definition newEntry :: "('req, 'resp) ServerMux \<Rightarrow> signal \<Rightarrow> ('req, 'resp) ServerMux" where
  "newEntry mux s =
     (if mux_entries mux s = None
      then mux\<lparr>mux_entries := (mux_entries mux)(s := Some \<lparr>e_middlewares = [], e_h = None\<rparr>),
               mux_httpMux := mux_httpMux mux @ [(signalPath s, s)]\<rparr>
      else mux)"

definition getEntry :: "('req, 'resp) ServerMux \<Rightarrow> signal \<Rightarrow> ('req, 'resp) ServerMux" where
  "getEntry mux s = (case mux_entries mux s of Some e \<Rightarrow> mux | None \<Rightarrow> newEntry mux s)"

definition updEntry ::
  "(('req, 'resp) entry \<Rightarrow> ('req, 'resp) entry) \<Rightarrow> ('req, 'resp) ServerMux \<Rightarrow> signal \<Rightarrow> ('req, 'resp) ServerMux" where
  "updEntry f mux s = mux\<lparr>mux_entries := (mux_entries mux)(s := map_option f (mux_entries mux s))\<rparr>"

text \<open>\<open>mux.Trace().Use(m...)\<close> and \<open>mux.Trace().Handle(handler)\<close>, for each signal.\<close>

definition entryUse ::
  "('req, 'resp) ServerMux \<Rightarrow> signal \<Rightarrow> (('req, 'resp) handler \<Rightarrow> ('req, 'resp) handler) list
     \<Rightarrow> ('req, 'resp) ServerMux" where
  "entryUse mux s m = updEntry (\<lambda>e. e\<lparr>e_middlewares := e_middlewares e @ m\<rparr>) (getEntry mux s) s"

definition Handle :: "('req, 'resp) ServerMux \<Rightarrow> signal \<Rightarrow> ('req, 'resp) handler \<Rightarrow> ('req, 'resp) ServerMux" where
  "Handle mux s handler = updEntry (\<lambda>e. e\<lparr>e_h := Some handler\<rparr>) (getEntry mux s) s"

text \<open>
  \<open>chainedMiddleware\<close>: the identity for no middleware; otherwise the loop starts from
  the last middleware and goes down to index 0, each step wrapping what it has in the
  middleware at that index.
\<close>

definition chainedMiddleware :: "('req, 'resp) MiddlewareFunc list \<Rightarrow> ('req, 'resp) MiddlewareFunc" where
  "chainedMiddleware middlewares =
     (if length middlewares = 0 then (\<lambda>next. next)
      else fold (\<lambda>mw next. (\<lambda>h. mw (next h))) (tl (rev middlewares)) (hd (rev middlewares)))"

text \<open>\<open>getHandler\<close>: the loop runs from the last middleware down to index 0.\<close>

definition getHandler :: "('req, 'resp) entry \<Rightarrow> ('req, 'resp) handler option" where
  "getHandler e =
     (case e_h e of
        None \<Rightarrow> None
      | Some h \<Rightarrow> Some (fold (\<lambda>m wrapped. m wrapped) (rev (e_middlewares e)) h))"

text \<open>
  \<open>Export\<close>.  Without a handler the embedded \<open>UnimplementedTraceServiceServer\<close>
  answers (generated code of the OTLP protobuf module: status Unimplemented, "method
  Export not implemented").  The type assertion \<open>req.(*TraceRequest)\<close> panics on any
  other message.
\<close>

definition unimplementedExport :: "'resp outcome" where
  "unimplementedExport =
     Fail (StatusErr \<lparr>st_Code = Unimplemented, st_Message = ''method Export not implemented'',
                      st_Details = []\<rparr>)"

definition eraseHandler :: "('req, 'resp) handler \<Rightarrow> ('req, 'resp) ProtoHandlerFunc" where
  "eraseHandler base = (\<lambda>ctx req.
     (case req of
        Request r \<Rightarrow> (case base ctx r of Return resp \<Rightarrow> Return (Response resp)
                                     | Fail e \<Rightarrow> Fail e | Panic \<Rightarrow> Panic)
      | _ \<Rightarrow> Panic))"

definition Export ::
  "('req, 'resp) MiddlewareFunc list \<Rightarrow> ('req, 'resp) entry \<Rightarrow> ('req, 'resp) handler" where
  "Export muxMiddlewares e ctx req =
     (case getHandler e of
        None \<Rightarrow> unimplementedExport
      | Some base \<Rightarrow>
          (case chainedMiddleware muxMiddlewares (eraseHandler base) ctx (Request req) of
             Fail err \<Rightarrow> Fail err
           | Panic \<Rightarrow> Panic
           | Return resp \<Rightarrow>
               (case resp of
                  Response traceResp \<Rightarrow> Return traceResp
                | _ \<Rightarrow> Fail (StatusErr \<lparr>st_Code = Internal, st_Message = ''unexpected response type'',
                                         st_Details = []\<rparr>))))"

text \<open>
  The binary-RPC transport.  \<open>Register\<close> registers the service of each signal that has
  an entry at that moment; the gRPC server (google.golang.org/grpc) answers a call to a
  service nobody registered with status Unimplemented, and hands any other call to the
  entry's \<open>Export\<close>.
\<close>

definition Register :: "('req, 'resp) ServerMux \<Rightarrow> signal list" where
  "Register mux = filter (\<lambda>s. mux_entries mux s \<noteq> None) [Traces, Metrics, Logs]"

definition grpcExport :: "signal list \<Rightarrow> ('req, 'resp) ServerMux \<Rightarrow> signal \<Rightarrow> ('req, 'resp) handler" where
  "grpcExport registered mux s ctx req =
     (if s \<in> set registered
      then (case mux_entries mux s of
              Some e \<Rightarrow> Export (mux_middlewares mux) e ctx req
            | None \<Rightarrow> Fail (StatusErr \<lparr>st_Code = Unimplemented, st_Message = ''unknown service'',
                                      st_Details = []\<rparr>))
      else Fail (StatusErr \<lparr>st_Code = Unimplemented, st_Message = ''unknown service'',
                             st_Details = []\<rparr>))"

text \<open>The configuration calls a program makes on a multiplexer, and the state they lead to.\<close>

datatype ('req, 'resp) mux_call =
    CallUse "('req, 'resp) MiddlewareFunc list"
  | CallEntry signal
  | CallEntryUse signal "(('req, 'resp) handler \<Rightarrow> ('req, 'resp) handler) list"
  | CallHandle signal "('req, 'resp) handler"

fun call :: "('req, 'resp) ServerMux \<Rightarrow> ('req, 'resp) mux_call \<Rightarrow> ('req, 'resp) ServerMux" where
  "call mux (CallUse m) = Use mux m"
| "call mux (CallEntry s) = getEntry mux s"
| "call mux (CallEntryUse s m) = entryUse mux s m"
| "call mux (CallHandle s handler) = Handle mux s handler"

definition configured :: "('req, 'resp) mux_call list \<Rightarrow> ('req, 'resp) ServerMux" where
  "configured calls = foldl call NewServerMux calls"

subsection \<open>The HTTP bridge\<close>

fun grpcCodeToHTTPStatus :: "code \<Rightarrow> nat" where
  "grpcCodeToHTTPStatus OK = 200"
| "grpcCodeToHTTPStatus Canceled = 408"
| "grpcCodeToHTTPStatus Unknown = 500"
| "grpcCodeToHTTPStatus InvalidArgument = 400"
| "grpcCodeToHTTPStatus DeadlineExceeded = 504"
| "grpcCodeToHTTPStatus NotFound = 404"
| "grpcCodeToHTTPStatus AlreadyExists = 409"
| "grpcCodeToHTTPStatus PermissionDenied = 403"
| "grpcCodeToHTTPStatus ResourceExhausted = 429"
| "grpcCodeToHTTPStatus FailedPrecondition = 412"
| "grpcCodeToHTTPStatus Aborted = 409"
| "grpcCodeToHTTPStatus OutOfRange = 400"
| "grpcCodeToHTTPStatus Unimplemented = 501"
| "grpcCodeToHTTPStatus Internal = 500"
| "grpcCodeToHTTPStatus Unavailable = 503"
| "grpcCodeToHTTPStatus DataLoss = 500"
| "grpcCodeToHTTPStatus Unauthenticated = 401"
| "grpcCodeToHTTPStatus (CodeOther n) = 500"

text \<open>
  A request as the handler reads it: the header is keyed by canonical names, the body is
  the bytes \<open>io.ReadAll\<close> returns (\<open>Inr\<close>) or the text of its error (\<open>Inl\<close>).
\<close>

record request =
  r_Method :: string
  r_Path :: string
  r_Header :: "(string \<times> string list) list"
  r_Body :: "string + string"
  r_Context :: Context

definition Header_Get :: "(string \<times> string list) list \<Rightarrow> string \<Rightarrow> string" where
  "Header_Get header key = (case map_of header key of Some (v # vs) \<Rightarrow> v | _ \<Rightarrow> [])"

text \<open>
  What is written to the \<open>http.ResponseWriter\<close>.  The body names the message and the
  encoding instead of the encoded bytes; marshalling a response or a status is taken to
  succeed.
\<close>

datatype 'resp body =
    ProtoBytes 'resp | JSONBytes 'resp | StatusProtoBytes status | StatusJSONBytes status
  | Text string

record 'resp response =
  w_Status :: nat
  w_ContentType :: string
  w_Body :: "'resp body"

definition http_Error :: "string \<Rightarrow> nat \<Rightarrow> 'resp response" where
  "http_Error error c =
     \<lparr>w_Status = c, w_ContentType = ''text/plain; charset=utf-8'', w_Body = Text error\<rparr>"

definition errorProto :: "status \<Rightarrow> 'resp response" where
  "errorProto st =
     \<lparr>w_Status = grpcCodeToHTTPStatus (st_Code st), w_ContentType = ''application/x-protobuf'',
      w_Body = StatusProtoBytes st\<rparr>"

definition errorJSON :: "status \<Rightarrow> 'resp response" where
  "errorJSON st =
     \<lparr>w_Status = grpcCodeToHTTPStatus (st_Code st), w_ContentType = ''application/json'',
      w_Body = StatusJSONBytes st\<rparr>"

text \<open>
  \<open>proto.Unmarshal\<close> and \<open>protojson.Unmarshal\<close> belong to google.golang.org/protobuf,
  not to this repository.  What they do with a body that has content is a parameter
  (\<open>wire_proto\<close>, \<open>wire_json\<close>: the message, or the text of the error).  On a body of
  zero bytes the library is fixed: the protobuf wire format is a sequence of fields, and
  the empty sequence leaves the message as \<open>newRequestFunc\<close> made it, the zero value;
  protojson reads a JSON object, finds no token and reports a syntax error (whose wording
  the library does not fix).
\<close>

record 'req wire =
  wire_zero :: 'req
  wire_proto :: "string \<Rightarrow> string + 'req"
  wire_json :: "string \<Rightarrow> string + 'req"

definition proto_Unmarshal :: "'req wire \<Rightarrow> string \<Rightarrow> string + 'req" where
  "proto_Unmarshal wire b = (if b = [] then Inr (wire_zero wire) else wire_proto wire b)"

definition protojson_Unmarshal :: "'req wire \<Rightarrow> string \<Rightarrow> string + 'req" where
  "protojson_Unmarshal wire b =
     (if b = [] then Inl ''syntax error (line 1:1): unexpected token'' else wire_json wire b)"

text \<open>
  The result of serving is the response written, or \<open>None\<close> when the handler panics
  (net/http recovers and drops the connection).
\<close>

definition serveHTTPWithProto ::
  "'req wire \<Rightarrow> ('req, 'resp) handler \<Rightarrow> request \<Rightarrow> 'resp response option" where
  "serveHTTPWithProto wire handler r =
     (let ctx = r_Context r in
      case r_Body r of
        Inl readErr \<Rightarrow>
          Some (errorProto \<lparr>st_Code = InvalidArgument, st_Message = ''Unable to read request body'',
                             st_Details = [readErr]\<rparr>)
      | Inr body \<Rightarrow>
          (case proto_Unmarshal wire body of
             Inl unmarshalErr \<Rightarrow>
               Some (errorProto \<lparr>st_Code = InvalidArgument,
                                  st_Message = ''Unable to unmarshal request body'', st_Details = []\<rparr>)
           | Inr req \<Rightarrow>
               (case handler ctx req of
                  Fail e \<Rightarrow>
                    (case e of
                       StatusErr st \<Rightarrow> Some (errorProto st)
                     | PlainErr msg \<Rightarrow>
                         Some (errorProto \<lparr>st_Code = Internal, st_Message = msg, st_Details = []\<rparr>))
                | Panic \<Rightarrow> None
                | Return resp \<Rightarrow>
                    Some \<lparr>w_Status = 200, w_ContentType = ''application/x-protobuf'',
                          w_Body = ProtoBytes resp\<rparr>)))"

definition serveHTTPWithJSON ::
  "'req wire \<Rightarrow> ('req, 'resp) handler \<Rightarrow> request \<Rightarrow> 'resp response option" where
  "serveHTTPWithJSON wire handler r =
     (let ctx = r_Context r in
      case r_Body r of
        Inl readErr \<Rightarrow>
          Some (errorJSON \<lparr>st_Code = InvalidArgument, st_Message = ''Unable to read request body'',
                            st_Details = [readErr]\<rparr>)
      | Inr bs \<Rightarrow>
          (case protojson_Unmarshal wire bs of
             Inl unmarshalErr \<Rightarrow>
               Some (errorJSON \<lparr>st_Code = InvalidArgument,
                                 st_Message = ''Unable to unmarshal request body'',
                                 st_Details = [unmarshalErr]\<rparr>)
           | Inr req \<Rightarrow>
               (case handler ctx req of
                  Fail e \<Rightarrow>
                    (case e of
                       StatusErr st \<Rightarrow> Some (errorJSON st)
                     | PlainErr msg \<Rightarrow>
                         Some (errorJSON \<lparr>st_Code = Internal, st_Message = msg, st_Details = []\<rparr>))
                | Panic \<Rightarrow> None
                | Return resp \<Rightarrow>
                    Some \<lparr>w_Status = 200, w_ContentType = ''application/json'',
                          w_Body = JSONBytes resp\<rparr>)))"

definition proxyHandler_ServeHTTP ::
  "'req wire \<Rightarrow> ('req, 'resp) handler \<Rightarrow> request \<Rightarrow> 'resp response option" where
  "proxyHandler_ServeHTTP wire handler r =
     (if r_Method r \<noteq> ''POST'' then Some (http_Error ''Method Not Allowed'' 405)
      else if Header_Get (r_Header r) ''Content-Type'' = ''application/x-protobuf''
        then serveHTTPWithProto wire handler r
      else if Header_Get (r_Header r) ''Content-Type'' = ''application/json''
        then serveHTTPWithJSON wire handler r
      else Some (http_Error ''Unsupported Media Type'' 415))"

text \<open>
  \<open>ServerMux.ServeHTTP\<close>.  The handler of a route is the entry itself, whose proxy
  handler calls the entry's \<open>Export\<close>; a route to a nil entry would panic.
\<close>

definition ServerMux_ServeHTTP ::
  "'req wire \<Rightarrow> ('req, 'resp) ServerMux \<Rightarrow> request \<Rightarrow> 'resp response option" where
  "ServerMux_ServeHTTP wire mux r0 =
     (let md = r_Header r0;
          r = r0\<lparr>r_Context := IncomingMD md # r_Context r0\<rparr>
      in case map_of (mux_httpMux mux) (r_Path r) of
           Some s \<Rightarrow>
             (case mux_entries mux s of
                Some e \<Rightarrow> proxyHandler_ServeHTTP wire (Export (mux_middlewares mux) e) r
              | None \<Rightarrow> None)
         | None \<Rightarrow>
             (let st = \<lparr>st_Code = NotFound, st_Message = ''no handler registered for path'',
                        st_Details = []\<rparr>
              in if Header_Get (r_Header r) ''Content-Type'' = ''application/x-protobuf''
                   then Some (errorProto st)
                 else if Header_Get (r_Header r) ''Content-Type'' = ''application/json''
                   then Some (errorJSON st)
                 else Some (http_Error ''Not Found'' 404)))"

text \<open>A test device: the middleware that records a value in the context and calls on.\<close>

definition probe :: "string \<Rightarrow> ('a, 'b) handler \<Rightarrow> ('a, 'b) handler" where
  "probe v next = (\<lambda>ctx req. next (WithValue ''probe'' v # ctx) req)"

text \<open>
  The configuration of the repository's test of the middleware order
  (TestServer__gRPC_Trace): a handler, then one middleware of the trace entry, then one
  cross-signal middleware.  The handler answers with the context it was called with.
\<close>

definition testMux :: "(nat, Context) ServerMux" where
  "testMux = configured
     [CallHandle Traces (\<lambda>ctx req. Return ctx),
      CallEntryUse Traces [probe ''inner''],
      CallUse [probe ''outer'']]"

definition testWire :: "nat wire" where
  "testWire = \<lparr>wire_zero = 0, wire_proto = (\<lambda>b. Inr (length b)), wire_json = (\<lambda>b. Inr (length b))\<rparr>"

definition testRequest :: "string \<Rightarrow> string \<Rightarrow> request" where
  "testRequest contentType b =
     \<lparr>r_Method = ''POST'', r_Path = ''/v1/traces'',
      r_Header = [(''Content-Type'', [contentType])], r_Body = Inr b, r_Context = []\<rparr>"

subsection \<open>Notions used to state the properties of the multiplexer\<close>

text \<open>The route table and the entries agree: a path leads to a signal exactly when it is
  the signal's path and the signal has an entry.\<close>

definition routesMatch :: "('req, 'resp) ServerMux \<Rightarrow> bool" where
  "routesMatch mux = (\<forall>p s. (map_of (mux_httpMux mux) p = Some s)
                          = (p = signalPath s \<and> mux_entries mux s \<noteq> None))"

text \<open>
  A signal has no handler registered: it has no entry, or its entry holds no handler
  (\<open>Trace()\<close> was called, to register a middleware for instance, but not \<open>Handle\<close>).
  Then the statuses the multiplexer answers with, and a multiplexer in the second state.
\<close>

definition noHandler :: "('req, 'resp) ServerMux \<Rightarrow> signal \<Rightarrow> bool" where
  "noHandler mux s = (case mux_entries mux s of None \<Rightarrow> True | Some e \<Rightarrow> e_h e = None)"

definition notFoundStatus :: status where
  "notFoundStatus = \<lparr>st_Code = NotFound, st_Message = ''no handler registered for path'', st_Details = []\<rparr>"

definition unimplementedStatus :: status where
  "unimplementedStatus = \<lparr>st_Code = Unimplemented, st_Message = ''method Export not implemented'',
                           st_Details = []\<rparr>"

definition bareMux :: "(nat, Context) ServerMux" where
  "bareMux = configured [CallEntryUse Traces [probe ''x'']]"

section \<open>Client (otlp/client.go)\<close>

text \<open>
  Of the options of a signal the upload and lifecycle code reads the protocol, the
  connection fingerprint (\<open>grpcConnectionInfo\<close>: the hexadecimal SHA-512 digest over
  host, user agent, TLS selector and compression selector, taken here as given) and the
  endpoint.
\<close>

record clientSignalsOptions =
  so_protocol :: string
  so_connHash :: string
  so_endpoint :: string

record clientOptions =
  o_traces :: clientSignalsOptions
  o_metrics :: clientSignalsOptions
  o_logs :: clientSignalsOptions

fun signalOptions :: "clientOptions \<Rightarrow> signal \<Rightarrow> clientSignalsOptions" where
  "signalOptions o' Traces = o_traces o'"
| "signalOptions o' Metrics = o_metrics o'"
| "signalOptions o' Logs = o_logs o'"

definition isGRPCProtocol :: "clientSignalsOptions \<Rightarrow> bool" where
  "isGRPCProtocol so = (so_protocol so = ''grpc'')"

definition isHTTPProtocol :: "clientSignalsOptions \<Rightarrow> bool" where
  "isHTTPProtocol so = (take 5 (so_protocol so) = ''http/'')"

definition httpContentType :: "clientSignalsOptions \<Rightarrow> string" where
  "httpContentType so =
     (if \<not> isHTTPProtocol so then []
      else if so_protocol so = ''http/json'' then ''application/json''
      else if so_protocol so = ''http/protobuf'' then ''application/x-protobuf''
      else [])"

text \<open>
  The export response of a signal with its optional partial-success sub-message (the
  rejected count and the error message); one record stands for the three response types.
\<close>

record partial_success =
  ps_Rejected :: int
  ps_ErrorMessage :: string

record export_response =
  PartialSuccess :: "partial_success option"

text \<open>The errors the client returns.  \<open>Errorf\<close> is an error made by \<open>fmt.Errorf\<close>, with
  its text up to the wrapped cause.\<close>

datatype client_error =
    ErrAlreadyClosed
  | ErrNotStarted
  | ExportError err
  | UploadPartialSuccessError signal export_response
  | Errorf string
  | ContextErr string
  | CloseError string
  | JoinedErrors "string list"

text \<open>The \<open>Response\<close> method of the partial-success error types (\<open>errors.As\<close> on
  any other error finds none).\<close>

fun errorResponse :: "client_error \<Rightarrow> export_response option" where
  "errorResponse (UploadPartialSuccessError s resp) = Some resp"
| "errorResponse _ = None"

text \<open>
  The connection table maps a fingerprint to its channel; a nil channel is \<open>None\<close>.  The
  table is a list, for \<open>Stop\<close> to run over; the order in which Go runs over a map is
  not fixed, and only the order of several close errors depends on it.
\<close>

record 'conn Client =
  c_o :: clientOptions
  c_conns :: "(string \<times> 'conn option) list"
  c_stopContexts :: "string list"
  c_stopFuncs :: "string list"

definition newClient :: "clientOptions \<Rightarrow> 'conn Client" where
  "newClient o' = \<lparr>c_o = o', c_conns = [], c_stopContexts = [], c_stopFuncs = []\<rparr>"

text \<open>\<open>startGRPC\<close>; \<open>dial\<close> is \<open>grpc.NewClient\<close> for the signal's target and options.\<close>

definition startGRPC ::
  "(clientSignalsOptions \<Rightarrow> string + 'conn) \<Rightarrow> 'conn Client \<Rightarrow> clientSignalsOptions
     \<Rightarrow> string + 'conn Client" where
  "startGRPC dial c so =
     (let connHash = so_connHash so in
      if map_of (c_conns c) connHash \<noteq> None then Inr c
      else (case dial so of
              Inl e \<Rightarrow> Inl e
            | Inr conn \<Rightarrow>
                Inr (c\<lparr>c_stopContexts := c_stopContexts c @ [connHash],
                       c_stopFuncs := c_stopFuncs c @ [connHash],
                       c_conns := c_conns c @ [(connHash, Some conn)]\<rparr>)))"

text \<open>\<open>Start\<close> returns the client as it is left and the error, if any.\<close>

definition Start ::
  "(clientSignalsOptions \<Rightarrow> string + 'conn) \<Rightarrow> 'conn Client \<Rightarrow> 'conn Client \<times> client_error option" where
  "Start dial c =
     (case (if isGRPCProtocol (o_traces (c_o c)) then startGRPC dial c (o_traces (c_o c)) else Inr c) of
        Inl e \<Rightarrow> (c, Some (Errorf (''start traces gRPC client: '' @ e)))
      | Inr c1 \<Rightarrow>
     (case (if isGRPCProtocol (o_metrics (c_o c1)) then startGRPC dial c1 (o_metrics (c_o c1)) else Inr c1) of
        Inl e \<Rightarrow> (c1, Some (Errorf (''start metrics gRPC client: '' @ e)))
      | Inr c2 \<Rightarrow>
     (case (if isGRPCProtocol (o_logs (c_o c2)) then startGRPC dial c2 (o_logs (c_o c2)) else Inr c2) of
        Inl e \<Rightarrow> (c2, Some (Errorf (''start logs gRPC client: '' @ e)))
      | Inr c3 \<Rightarrow> (c3, None))))"

text \<open>
  \<open>uploadTracesWithGRPC\<close>, \<open>uploadMetricsWithGRPC\<close>, \<open>uploadLogsWithGRPC\<close> are one
  text up to the signal's names.  \<open>export\<close> is the call of the generated service client
  on the channel: the response (nil is \<open>None\<close>) and the error (nil is \<open>None\<close>).
\<close>

fun status_Code :: "err option \<Rightarrow> code" where
  "status_Code None = OK"
| "status_Code (Some (StatusErr st)) = st_Code st"
| "status_Code (Some (PlainErr msg)) = Unknown"

definition uploadWithGRPC ::
  "('conn \<Rightarrow> 'req \<Rightarrow> export_response option \<times> err option) \<Rightarrow> 'conn Client \<Rightarrow> signal \<Rightarrow> 'req
     \<Rightarrow> client_error option" where
  "uploadWithGRPC export c s protoData =
     (let connHash = so_connHash (signalOptions (c_o c) s) in
      case map_of (c_conns c) connHash of
        None \<Rightarrow> Some ErrNotStarted
      | Some None \<Rightarrow> Some ErrNotStarted
      | Some (Some conn) \<Rightarrow>
          (case export conn protoData of
             (resp, e) \<Rightarrow>
               if e \<noteq> None \<and> status_Code e \<noteq> OK then map_option ExportError e
               else (case resp of
                       None \<Rightarrow> None
                     | Some r \<Rightarrow>
                         if PartialSuccess r \<noteq> None then Some (UploadPartialSuccessError s r)
                         else None)))"

text \<open>
  \<open>uploadTracesWithHTTP\<close> and its two siblings.  \<open>do\<close> is \<open>client.Do\<close> on the request
  built from the endpoint, the content type and the marshalled data: the error text, or
  the response with its status code, its \<open>Content-Type\<close> header and its body (the bytes,
  or the text of the read error).  \<open>decodeProto\<close> and \<open>decodeJSON\<close> are
  \<open>proto.Unmarshal\<close> and \<open>protojson.Unmarshal\<close> into the response message.  Marshalling
  the data and building the request are taken to succeed.
\<close>

record http_response =
  hr_StatusCode :: nat
  hr_ContentType :: string
  hr_Body :: "string + string"

definition uploadWithHTTP ::
  "(string \<Rightarrow> string \<Rightarrow> 'req \<Rightarrow> string + http_response)
     \<Rightarrow> (string \<Rightarrow> string + export_response) \<Rightarrow> (string \<Rightarrow> string + export_response)
     \<Rightarrow> 'conn Client \<Rightarrow> signal \<Rightarrow> 'req \<Rightarrow> client_error option" where
  "uploadWithHTTP do decodeProto decodeJSON c s protoData =
     (let so = signalOptions (c_o c) s;
          contentType = httpContentType so
      in case do (so_endpoint so) contentType protoData of
           Inl e \<Rightarrow> Some (Errorf (''failed to send request: '' @ e))
         | Inr resp \<Rightarrow>
             if hr_StatusCode resp \<noteq> 200 then Some (Errorf ''unexpected status code'')
             else (case hr_Body resp of
                     Inl e \<Rightarrow> Some (Errorf (''failed to read response body: '' @ e))
                   | Inr respBody \<Rightarrow>
                       (case (if hr_ContentType resp = ''application/x-protobuf''
                                then (case decodeProto respBody of
                                        Inl e \<Rightarrow> Inl (Errorf (''failed to unmarshal response: '' @ e))
                                      | Inr d \<Rightarrow> Inr d)
                              else if hr_ContentType resp = ''application/json''
                                then (case decodeJSON respBody of
                                        Inl e \<Rightarrow> Inl (Errorf (''failed to unmarshal response: '' @ e))
                                      | Inr d \<Rightarrow> Inr d)
                              else Inl (Errorf (''unexpected content type: '' @ hr_ContentType resp))) of
                          Inl e \<Rightarrow> Some e
                        | Inr respData \<Rightarrow>
                            if PartialSuccess respData \<noteq> None
                            then Some (UploadPartialSuccessError s respData)
                            else None)))"

text \<open>\<open>UploadTraces\<close>, \<open>UploadMetrics\<close>, \<open>UploadLogs\<close>.\<close>

definition Upload ::
  "('conn \<Rightarrow> 'req \<Rightarrow> export_response option \<times> err option)
     \<Rightarrow> (string \<Rightarrow> string \<Rightarrow> 'req \<Rightarrow> string + http_response)
     \<Rightarrow> (string \<Rightarrow> string + export_response) \<Rightarrow> (string \<Rightarrow> string + export_response)
     \<Rightarrow> 'conn Client \<Rightarrow> signal \<Rightarrow> 'req \<Rightarrow> client_error option" where
  "Upload export do decodeProto decodeJSON c s protoData =
     (if isGRPCProtocol (signalOptions (c_o c) s) then uploadWithGRPC export c s protoData
      else uploadWithHTTP do decodeProto decodeJSON c s protoData)"

text \<open>
  \<open>Stop\<close>, once it holds the lock.  \<open>ctxErr\<close> is \<open>ctx.Err()\<close> (nil is \<open>None\<close>),
  \<open>close\<close> is \<open>conn.Close\<close> with the text of its error.  The cancellation of the stop
  contexts acts on calls in flight and is not part of the result.
\<close>

definition Stop ::
  "string option \<Rightarrow> ('conn \<Rightarrow> string option) \<Rightarrow> 'conn Client \<Rightarrow> 'conn Client \<times> client_error option" where
  "Stop ctxErr close c =
     (if length (c_conns c) = 0 then (c, Some ErrAlreadyClosed)
      else
        (let colseErrs = concat (map (\<lambda>(connHash, conn).
                             case conn of
                               None \<Rightarrow> []
                             | Some cn \<Rightarrow> (case close cn of None \<Rightarrow> [] | Some e \<Rightarrow> [e]))
                           (c_conns c));
             err = (case ctxErr of
                      Some e \<Rightarrow> Some (ContextErr e)
                    | None \<Rightarrow>
                        if length colseErrs > 0
                        then (if length colseErrs = 1 then Some (CloseError (hd colseErrs))
                              else Some (JoinedErrors colseErrs))
                        else None)
         in (c\<lparr>c_conns := [], c_stopFuncs := [], c_stopContexts := []\<rparr>, err)))"

subsection \<open>Notions used to state the properties of the client\<close>

text \<open>
  The lifecycle calls made on a client and the client they leave.  No channel was ever
  opened when no \<open>Start\<close> of the history changed the connection table.
\<close>

datatype 'conn client_call =
    CallStart "clientSignalsOptions \<Rightarrow> string + 'conn"
  | CallStop "string option" "'conn \<Rightarrow> string option"

fun clientCall :: "'conn Client \<Rightarrow> 'conn client_call \<Rightarrow> 'conn Client" where
  "clientCall c (CallStart dial) = fst (Start dial c)"
| "clientCall c (CallStop ctxErr close) = fst (Stop ctxErr close c)"

fun neverOpened :: "'conn Client \<Rightarrow> 'conn client_call list \<Rightarrow> bool" where
  "neverOpened c [] = True"
| "neverOpened c (k # ks) =
     ((case k of CallStart dial \<Rightarrow> c_conns (fst (Start dial c)) = c_conns c | CallStop x y \<Rightarrow> True)
      \<and> neverOpened (clientCall c k) ks)"

text \<open>
  A configuration with one signal on each protocol, and a response that carries a
  partial-success sub-message with nothing rejected and no message.
\<close>

definition testOptions :: clientOptions where
  "testOptions =
     \<lparr>o_traces = \<lparr>so_protocol = ''grpc'', so_connHash = ''c0ffee'', so_endpoint = ''http://localhost:4317''\<rparr>,
      o_metrics = \<lparr>so_protocol = ''http/json'', so_connHash = ''c0ffee'',
                   so_endpoint = ''http://localhost:4318/v1/metrics''\<rparr>,
      o_logs = \<lparr>so_protocol = ''http/protobuf'', so_connHash = ''c0ffee'',
                so_endpoint = ''http://localhost:4318/v1/logs''\<rparr>\<rparr>"

definition emptyPartialSuccess :: export_response where
  "emptyPartialSuccess = \<lparr>PartialSuccess = Some \<lparr>ps_Rejected = 0, ps_ErrorMessage = []\<rparr>\<rparr>"

section \<open>JSON codec (otlp/json.go)\<close>

subsection \<open>The functions of the Go library the codec calls\<close>

text \<open>
  A string is its list of bytes; a byte slice (\<open>[]byte\<close>) is the list of the values of
  its bytes, each below 256.  \<open>encoding/base64\<close>, \<open>encoding/hex\<close> and
  \<open>strings\<close> belong to the Go standard library; they are written out from their
  documented behaviour.  \<open>base64.StdEncoding\<close> is the standard alphabet with padding;
  its decoder skips carriage returns and line feeds, wants padding only in the last group
  of four and does not check the unused bits of the last character (it is not strict).
\<close>

type_synonym bytes = "nat list"

definition encodeStd :: string where
  "encodeStd = ''ABCDEFGHIJKLMNOPQRSTUVWXYZabcdefghijklmnopqrstuvwxyz0123456789+/''"

definition decodeMap :: "char \<Rightarrow> nat option" where
  "decodeMap c = (let n = of_char c :: nat in
      if 65 \<le> n \<and> n \<le> 90 then Some (n - 65)
      else if 97 \<le> n \<and> n \<le> 122 then Some (n - 71)
      else if 48 \<le> n \<and> n \<le> 57 then Some (n + 4)
      else if n = 43 then Some 62
      else if n = 47 then Some 63
      else None)"

fun base64_EncodeToString :: "bytes \<Rightarrow> string" where
  "base64_EncodeToString (a # b # c # rest) =
     (let v = a * 65536 + b * 256 + c
      in [encodeStd ! (v div 262144), encodeStd ! (v div 4096 mod 64),
          encodeStd ! (v div 64 mod 64), encodeStd ! (v mod 64)])
     @ base64_EncodeToString rest"
| "base64_EncodeToString [a, b] =
     (let v = a * 65536 + b * 256
      in [encodeStd ! (v div 262144), encodeStd ! (v div 4096 mod 64),
          encodeStd ! (v div 64 mod 64), CHR ''=''])"
| "base64_EncodeToString [a] =
     (let v = a * 65536
      in [encodeStd ! (v div 262144), encodeStd ! (v div 4096 mod 64), CHR ''='', CHR ''=''])"
| "base64_EncodeToString [] = []"

text \<open>The groups of four characters of the input, newlines taken out; \<open>None\<close> is the
  decoder's error.\<close>

fun decodeQuanta :: "string \<Rightarrow> bytes option" where
  "decodeQuanta [] = Some []"
| "decodeQuanta [a, b, c, d] =
     (case (decodeMap a, decodeMap b) of
        (Some x, Some y) \<Rightarrow>
          if c = CHR ''='' then (if d = CHR ''='' then Some [(x * 64 + y) div 16 mod 256] else None)
          else (case decodeMap c of
                  None \<Rightarrow> None
                | Some z \<Rightarrow>
                    if d = CHR ''=''
                    then Some [(x * 4096 + y * 64 + z) div 1024 mod 256,
                               (x * 4096 + y * 64 + z) div 4 mod 256]
                    else (case decodeMap d of
                            None \<Rightarrow> None
                          | Some w \<Rightarrow>
                              Some [(x * 262144 + y * 4096 + z * 64 + w) div 65536 mod 256,
                                    (x * 262144 + y * 4096 + z * 64 + w) div 256 mod 256,
                                    (x * 262144 + y * 4096 + z * 64 + w) mod 256]))
      | _ \<Rightarrow> None)"
| "decodeQuanta (a # b # c # d # rest) =
     (case (decodeMap a, decodeMap b, decodeMap c, decodeMap d) of
        (Some x, Some y, Some z, Some w) \<Rightarrow>
          map_option (\<lambda>bs. (x * 262144 + y * 4096 + z * 64 + w) div 65536 mod 256
                            # (x * 262144 + y * 4096 + z * 64 + w) div 256 mod 256
                            # (x * 262144 + y * 4096 + z * 64 + w) mod 256 # bs)
                     (decodeQuanta rest)
      | _ \<Rightarrow> None)"
| "decodeQuanta _ = None"

definition base64_DecodeString :: "string \<Rightarrow> bytes option" where
  "base64_DecodeString s = decodeQuanta (filter (\<lambda>c. c \<noteq> CHR 0x0A \<and> c \<noteq> CHR 0x0D) s)"

definition hextable :: string where
  "hextable = ''0123456789abcdef''"

definition hex_EncodeToString :: "bytes \<Rightarrow> string" where
  "hex_EncodeToString src =
     concat (map (\<lambda>v. [hextable ! (v div 16), hextable ! (v mod 16)]) src)"

definition fromHexChar :: "char \<Rightarrow> nat option" where
  "fromHexChar c = (let n = of_char c :: nat in
      if 48 \<le> n \<and> n \<le> 57 then Some (n - 48)
      else if 97 \<le> n \<and> n \<le> 102 then Some (n - 87)
      else if 65 \<le> n \<and> n \<le> 70 then Some (n - 55)
      else None)"

text \<open>\<open>hex.DecodeString\<close>: an odd length and a character that is no hexadecimal digit
  (of either case) are errors.\<close>

fun hex_DecodeString :: "string \<Rightarrow> bytes option" where
  "hex_DecodeString [] = Some []"
| "hex_DecodeString [p] = None"
| "hex_DecodeString (p # q # src) =
     (case (fromHexChar p, fromHexChar q) of
        (Some a, Some b) \<Rightarrow> map_option (\<lambda>bs. (a * 16 + b) # bs) (hex_DecodeString src)
      | _ \<Rightarrow> None)"

text \<open>
  \<open>strings.ToUpper\<close>, \<open>strings.ToLower\<close>, \<open>strings.ReplaceAll(k, "_", "")\<close> and
  \<open>strings.Contains\<close>, on ASCII text: the keys of a protobuf JSON document are field
  names, and the text put in upper case is hexadecimal.
\<close>

definition ToUpper :: "string \<Rightarrow> string" where
  "ToUpper s = map (\<lambda>c. if 97 \<le> (of_char c :: nat) \<and> (of_char c :: nat) \<le> 122
                         then ''ABCDEFGHIJKLMNOPQRSTUVWXYZ'' ! ((of_char c :: nat) - 97) else c) s"

definition ToLower :: "string \<Rightarrow> string" where
  "ToLower s = map (\<lambda>c. if 65 \<le> (of_char c :: nat) \<and> (of_char c :: nat) \<le> 90
                         then ''abcdefghijklmnopqrstuvwxyz'' ! ((of_char c :: nat) - 65) else c) s"

definition removeUnderscores :: "string \<Rightarrow> string" where
  "removeUnderscores k = filter (\<lambda>c. c \<noteq> CHR ''_'') k"

fun Contains :: "string \<Rightarrow> string \<Rightarrow> bool" where
  "Contains [] substr = (substr = [])"
| "Contains (c # s) substr = (take (length substr) (c # s) = substr \<or> Contains s substr)"

subsection \<open>The dynamic tree and the two conversions\<close>

text \<open>
  What \<open>json.Unmarshal\<close> makes of a document in a variable of type \<open>any\<close>: nil, a
  bool, a number (a float64, opaque here), a string, a slice, or a map from strings.  The
  map is a list of its entries: the loops below treat each entry by itself, so neither
  the order nor how Go runs over a map matters.
\<close>

datatype 'n json =
    JNull | JBool bool | JNumber 'n | JString string
  | JArray "'n json list" | JObject "(string \<times> 'n json) list"

text \<open>\<open>keyIsTraceIDOrSpanID\<close> returns \<open>hexBytes\<close>, \<open>base64Bytes\<close> and whether the
  key names an identifier.\<close>

definition keyIsTraceIDOrSpanID :: "string \<Rightarrow> nat \<times> nat \<times> bool" where
  "keyIsTraceIDOrSpanID k =
     (let key = removeUnderscores k;
          key = ToLower key
      in if Contains key ''traceid'' then (16, 24, True)
         else if Contains key ''spanid'' then (8, 12, True)
         else (0, 0, False))"

text \<open>
  The body of the loop of \<open>convertTraceIDAndSpanIDBase64ToHexForMap\<close> for an entry
  whose value is a string \<open>s\<close> under an identifier key: the new value of the entry (each
  \<open>continue\<close> before the assignment leaves \<open>s\<close>).
\<close>

definition base64ToHexString :: "nat \<Rightarrow> nat \<Rightarrow> string \<Rightarrow> string" where
  "base64ToHexString hexBytes base64Bytes s =
     (case base64_DecodeString s of
        None \<Rightarrow> s
      | Some bs \<Rightarrow>
          if length bs \<noteq> base64Bytes then s
          else (let converted = ToUpper (hex_EncodeToString bs)
                in if length converted \<noteq> hexBytes then s else converted))"

text \<open>The same for \<open>convertTraceIDAndSpanIDHexToBase64ForMap\<close>.\<close>

definition hexToBase64String :: "nat \<Rightarrow> nat \<Rightarrow> string \<Rightarrow> string" where
  "hexToBase64String hexBytes base64Bytes s =
     (case hex_DecodeString s of
        None \<Rightarrow> s
      | Some bs \<Rightarrow>
          if length bs \<noteq> hexBytes then s
          else (let converted = base64_EncodeToString bs
                in if length converted \<noteq> base64Bytes then s else converted))"

fun convertTraceIDAndSpanIDBase64ToHexForAny :: "'n json \<Rightarrow> 'n json"
  and convertTraceIDAndSpanIDBase64ToHexForMap :: "(string \<times> 'n json) list \<Rightarrow> (string \<times> 'n json) list"
where
  "convertTraceIDAndSpanIDBase64ToHexForAny (JObject data) =
     JObject (convertTraceIDAndSpanIDBase64ToHexForMap data)"
| "convertTraceIDAndSpanIDBase64ToHexForAny (JArray data) =
     JArray (map convertTraceIDAndSpanIDBase64ToHexForAny data)"
| "convertTraceIDAndSpanIDBase64ToHexForAny (JString s) = JString s"
| "convertTraceIDAndSpanIDBase64ToHexForAny (JNumber n) = JNumber n"
| "convertTraceIDAndSpanIDBase64ToHexForAny (JBool b) = JBool b"
| "convertTraceIDAndSpanIDBase64ToHexForAny JNull = JNull"
| "convertTraceIDAndSpanIDBase64ToHexForMap [] = []"
| "convertTraceIDAndSpanIDBase64ToHexForMap ((k, v) # data) =
     (k, (case keyIsTraceIDOrSpanID k of
            (hexBytes, base64Bytes, isID) \<Rightarrow>
              if isID
              then (case v of
                      JString s \<Rightarrow> JString (base64ToHexString hexBytes base64Bytes s)
                    | _ \<Rightarrow> convertTraceIDAndSpanIDBase64ToHexForAny v)
              else convertTraceIDAndSpanIDBase64ToHexForAny v))
     # convertTraceIDAndSpanIDBase64ToHexForMap data"

fun convertTraceIDAndSpanIDHexToBase64ForAny :: "'n json \<Rightarrow> 'n json"
  and convertTraceIDAndSpanIDHexToBase64ForMap :: "(string \<times> 'n json) list \<Rightarrow> (string \<times> 'n json) list"
where
  "convertTraceIDAndSpanIDHexToBase64ForAny (JObject data) =
     JObject (convertTraceIDAndSpanIDHexToBase64ForMap data)"
| "convertTraceIDAndSpanIDHexToBase64ForAny (JArray data) =
     JArray (map convertTraceIDAndSpanIDHexToBase64ForAny data)"
| "convertTraceIDAndSpanIDHexToBase64ForAny (JString s) = JString s"
| "convertTraceIDAndSpanIDHexToBase64ForAny (JNumber n) = JNumber n"
| "convertTraceIDAndSpanIDHexToBase64ForAny (JBool b) = JBool b"
| "convertTraceIDAndSpanIDHexToBase64ForAny JNull = JNull"
| "convertTraceIDAndSpanIDHexToBase64ForMap [] = []"
| "convertTraceIDAndSpanIDHexToBase64ForMap ((k, v) # data) =
     (k, (case keyIsTraceIDOrSpanID k of
            (hexBytes, base64Bytes, isID) \<Rightarrow>
              if isID
              then (case v of
                      JString s \<Rightarrow> JString (hexToBase64String hexBytes base64Bytes s)
                    | _ \<Rightarrow> convertTraceIDAndSpanIDHexToBase64ForAny v)
              else convertTraceIDAndSpanIDHexToBase64ForAny v))
     # convertTraceIDAndSpanIDHexToBase64ForMap data"

section \<open>Properties of the signal algebra\<close>














lemma TotalDataPoints_wrap_scope:
  "sum_list (map (\<lambda>elemScopeMetric.
       sum_list (map (\<lambda>elemMetric.
         (case m_Data elemMetric of
            Metric_Gauge dps \<Rightarrow> length dps
          | Metric_Summary dps \<Rightarrow> length dps
          | Metric_Sum dps at isMonotonic \<Rightarrow> length dps
          | Metric_Histogram dps at \<Rightarrow> length dps
          | Metric_ExponentialHistogram dps at \<Rightarrow> length dps
          | NoData \<Rightarrow> 0))
         (sm_Metrics elemScopeMetric)))
       (map (\<lambda>m. \<lparr>sm_Scope = sc, sm_Metrics = [m], sm_SchemaUrl = u\<rparr>) ms))
   = sum_list (map (\<lambda>elemMetric.
         (case m_Data elemMetric of
            Metric_Gauge dps \<Rightarrow> length dps
          | Metric_Summary dps \<Rightarrow> length dps
          | Metric_Sum dps at isMonotonic \<Rightarrow> length dps
          | Metric_Histogram dps at \<Rightarrow> length dps
          | Metric_ExponentialHistogram dps at \<Rightarrow> length dps
          | NoData \<Rightarrow> 0)) ms)"
  by (induction ms) simp_all












lemma TotalDataPoints_single:
  "TotalDataPoints [d] = TotalDataPoints [\<lparr>rm_Resource = r, rm_ScopeMetrics = rm_ScopeMetrics d, rm_SchemaUrl = u\<rparr>]"
  by simp












lemma splitScopeSpans_mem:
  "t \<in> set (splitScopeSpans src) \<Longrightarrow>
     (\<exists>s \<in> set src. \<exists>sp \<in> set (ss_Spans s).
        t = \<lparr>ss_Scope = ss_Scope s, ss_Spans = [sp], ss_SchemaUrl = ss_SchemaUrl s\<rparr>)"
  by (induction src) auto

lemma SplitResourceSpans_mem:
  "t \<in> set (SplitResourceSpans src) \<Longrightarrow>
     (\<exists>elem \<in> set src. \<exists>s \<in> set (rs_ScopeSpans elem). \<exists>sp \<in> set (ss_Spans s).
        t = \<lparr>rs_Resource = rs_Resource elem,
              rs_ScopeSpans = [\<lparr>ss_Scope = ss_Scope s, ss_Spans = [sp], ss_SchemaUrl = ss_SchemaUrl s\<rparr>],
              rs_SchemaUrl = rs_SchemaUrl elem\<rparr>)"
  by (induction src) (auto dest!: splitScopeSpans_mem)

lemma splitScopeLogs_mem:
  "t \<in> set (splitScopeLogs src) \<Longrightarrow>
     (\<exists>s \<in> set src. \<exists>lr \<in> set (sl_LogRecords s).
        t = \<lparr>sl_Scope = sl_Scope s, sl_LogRecords = [lr], sl_SchemaUrl = sl_SchemaUrl s\<rparr>)"
  by (induction src) auto

lemma SplitResourceLogs_mem:
  "t \<in> set (SplitResourceLogs src) \<Longrightarrow>
     (\<exists>elem \<in> set src. \<exists>s \<in> set (rl_ScopeLogs elem). \<exists>lr \<in> set (sl_LogRecords s).
        t = \<lparr>rl_Resource = rl_Resource elem,
              rl_ScopeLogs = [\<lparr>sl_Scope = sl_Scope s, sl_LogRecords = [lr], sl_SchemaUrl = sl_SchemaUrl s\<rparr>],
              rl_SchemaUrl = rl_SchemaUrl elem\<rparr>)"
  by (induction src) (auto dest!: splitScopeLogs_mem)

lemma splitMetrics_mem:
  "t \<in> set (splitMetrics src) \<Longrightarrow>
     (\<exists>m \<in> set src. \<exists>dp \<in> set (GetDataPoints (m_Data m)).
        t = \<lparr>m_Name = m_Name m, m_Description = m_Description m, m_Unit = m_Unit m,
              m_Metadata = m_Metadata m, m_Data = withDataPoints (m_Data m) [dp]\<rparr>)"
proof (induction src)
  case Nil
  then show ?case by simp
next
  case (Cons a src)
  show ?case
    using Cons by (cases "m_Data a") auto
qed

lemma splitScopeMetrics_mem:
  "t \<in> set (splitScopeMetrics src) \<Longrightarrow>
     (\<exists>s \<in> set src. \<exists>m \<in> set (sm_Metrics s). \<exists>dp \<in> set (GetDataPoints (m_Data m)).
        t = \<lparr>sm_Scope = sm_Scope s,
              sm_Metrics = [\<lparr>m_Name = m_Name m, m_Description = m_Description m, m_Unit = m_Unit m,
                              m_Metadata = m_Metadata m, m_Data = withDataPoints (m_Data m) [dp]\<rparr>],
              sm_SchemaUrl = sm_SchemaUrl s\<rparr>)"
  by (induction src) (auto dest!: splitMetrics_mem)

lemma SplitResourceMetrics_mem:
  "t \<in> set (SplitResourceMetrics src) \<Longrightarrow>
     (\<exists>elem \<in> set src. \<exists>s \<in> set (rm_ScopeMetrics elem). \<exists>m \<in> set (sm_Metrics s).
      \<exists>dp \<in> set (GetDataPoints (m_Data m)).
        t = \<lparr>rm_Resource = rm_Resource elem,
              rm_ScopeMetrics = [\<lparr>sm_Scope = sm_Scope s,
                sm_Metrics = [\<lparr>m_Name = m_Name m, m_Description = m_Description m, m_Unit = m_Unit m,
                                m_Metadata = m_Metadata m, m_Data = withDataPoints (m_Data m) [dp]\<rparr>],
                sm_SchemaUrl = sm_SchemaUrl s\<rparr>],
              rm_SchemaUrl = rm_SchemaUrl elem\<rparr>)"
  by (induction src) (auto dest!: splitScopeMetrics_mem)

text \<open>
  Claim C4.  Every tree produced by a Split function is a resource envelope around exactly
  one scope envelope around exactly one item; the item is one span, one log record, or a
  metric with exactly one data point.  Resource, instrumentation scope and both schema
  URLs are those of the envelopes of the input the leaf came from; a split metric keeps
  the name, description, unit and metadata of its parent, and the shape of its data with
  that shape's parameters.
\<close>

theorem split_yields_one_leaf_trees:
  "(\<forall>t \<in> set (SplitResourceSpans Ls).
      \<exists>elem \<in> set Ls. \<exists>s \<in> set (rs_ScopeSpans elem). \<exists>sp \<in> set (ss_Spans s).
        t = \<lparr>rs_Resource = rs_Resource elem,
              rs_ScopeSpans = [\<lparr>ss_Scope = ss_Scope s, ss_Spans = [sp], ss_SchemaUrl = ss_SchemaUrl s\<rparr>],
              rs_SchemaUrl = rs_SchemaUrl elem\<rparr>)
   \<and> (\<forall>t \<in> set (SplitResourceMetrics Lm).
      \<exists>elem \<in> set Lm. \<exists>s \<in> set (rm_ScopeMetrics elem). \<exists>m \<in> set (sm_Metrics s).
      \<exists>dp \<in> set (GetDataPoints (m_Data m)).
        t = \<lparr>rm_Resource = rm_Resource elem,
              rm_ScopeMetrics = [\<lparr>sm_Scope = sm_Scope s,
                sm_Metrics = [\<lparr>m_Name = m_Name m, m_Description = m_Description m, m_Unit = m_Unit m,
                                m_Metadata = m_Metadata m, m_Data = withDataPoints (m_Data m) [dp]\<rparr>],
                sm_SchemaUrl = sm_SchemaUrl s\<rparr>],
              rm_SchemaUrl = rm_SchemaUrl elem\<rparr>)
   \<and> (\<forall>t \<in> set (SplitResourceLogs Ll).
      \<exists>elem \<in> set Ll. \<exists>s \<in> set (rl_ScopeLogs elem). \<exists>lr \<in> set (sl_LogRecords s).
        t = \<lparr>rl_Resource = rl_Resource elem,
              rl_ScopeLogs = [\<lparr>sl_Scope = sl_Scope s, sl_LogRecords = [lr], sl_SchemaUrl = sl_SchemaUrl s\<rparr>],
              rl_SchemaUrl = rl_SchemaUrl elem\<rparr>)"
  using SplitResourceSpans_mem[of _ Ls] SplitResourceMetrics_mem[of _ Lm] SplitResourceLogs_mem[of _ Ll]
  by blast

theorem split_yields_one_leaf_trees_witness:
  "\<lparr>rs_Resource = ''svc'',
     rs_ScopeSpans = [\<lparr>ss_Scope = ''lib'', ss_Spans = [2 :: nat], ss_SchemaUrl = ''u''\<rparr>],
     rs_SchemaUrl = ''v''\<rparr>
     \<in> set (SplitResourceSpans
          [\<lparr>rs_Resource = ''svc'', rs_ScopeSpans =
              [\<lparr>ss_Scope = ''lib'', ss_Spans = [1, 2 :: nat], ss_SchemaUrl = ''u''\<rparr>],
            rs_SchemaUrl = ''v''\<rparr>])
   \<and> (\<exists>elem \<in> set [\<lparr>rs_Resource = ''svc'', rs_ScopeSpans =
              [\<lparr>ss_Scope = ''lib'', ss_Spans = [1, 2 :: nat], ss_SchemaUrl = ''u''\<rparr>],
            rs_SchemaUrl = ''v''\<rparr>].
        \<exists>s \<in> set (rs_ScopeSpans elem). \<exists>sp \<in> set (ss_Spans s).
          \<lparr>rs_Resource = ''svc'',
            rs_ScopeSpans = [\<lparr>ss_Scope = ''lib'', ss_Spans = [2 :: nat], ss_SchemaUrl = ''u''\<rparr>],
            rs_SchemaUrl = ''v''\<rparr>
          = \<lparr>rs_Resource = rs_Resource elem,
              rs_ScopeSpans = [\<lparr>ss_Scope = ss_Scope s, ss_Spans = [sp], ss_SchemaUrl = ss_SchemaUrl s\<rparr>],
              rs_SchemaUrl = rs_SchemaUrl elem\<rparr>)
   \<and> SplitResourceMetrics
        [\<lparr>rm_Resource = ''svc'', rm_ScopeMetrics =
            [\<lparr>sm_Scope = ''lib'', sm_Metrics =
                [\<lparr>m_Name = ''c'', m_Description = ''d'', m_Unit = ''1'', m_Metadata = (),
                  m_Data = Metric_Sum [5, 6 :: nat] 2 True\<rparr>], sm_SchemaUrl = ''w''\<rparr>],
          rm_SchemaUrl = ''v''\<rparr>]
      = [\<lparr>rm_Resource = ''svc'', rm_ScopeMetrics =
            [\<lparr>sm_Scope = ''lib'', sm_Metrics =
                [\<lparr>m_Name = ''c'', m_Description = ''d'', m_Unit = ''1'', m_Metadata = (),
                  m_Data = Metric_Sum [5] 2 True\<rparr>], sm_SchemaUrl = ''w''\<rparr>],
          rm_SchemaUrl = ''v''\<rparr>,
         \<lparr>rm_Resource = ''svc'', rm_ScopeMetrics =
            [\<lparr>sm_Scope = ''lib'', sm_Metrics =
                [\<lparr>m_Name = ''c'', m_Description = ''d'', m_Unit = ''1'', m_Metadata = (),
                  m_Data = Metric_Sum [6] 2 True\<rparr>], sm_SchemaUrl = ''w''\<rparr>],
          rm_SchemaUrl = ''v''\<rparr>]
   \<and> SplitResourceLogs
        [\<lparr>rl_Resource = ''svc'', rl_ScopeLogs =
            [\<lparr>sl_Scope = ''lib'', sl_LogRecords = [''a''], sl_SchemaUrl = ''w''\<rparr>],
          rl_SchemaUrl = ''v''\<rparr>]
      = [\<lparr>rl_Resource = ''svc'', rl_ScopeLogs =
            [\<lparr>sl_Scope = ''lib'', sl_LogRecords = [''a''], sl_SchemaUrl = ''w''\<rparr>],
          rl_SchemaUrl = ''v''\<rparr>]"
  using split_yields_one_leaf_trees
    [of "[\<lparr>rs_Resource = ''svc'', rs_ScopeSpans =
          [\<lparr>ss_Scope = ''lib'', ss_Spans = [1, 2 :: nat], ss_SchemaUrl = ''u''\<rparr>],
        rs_SchemaUrl = ''v''\<rparr>]"
        "[\<lparr>rm_Resource = ''svc'', rm_ScopeMetrics =
          [\<lparr>sm_Scope = ''lib'', sm_Metrics =
              [\<lparr>m_Name = ''c'', m_Description = ''d'', m_Unit = ''1'', m_Metadata = (),
                m_Data = Metric_Sum [5, 6 :: nat] 2 True\<rparr>], sm_SchemaUrl = ''w''\<rparr>],
        rm_SchemaUrl = ''v''\<rparr>]"
        "[\<lparr>rl_Resource = ''svc'', rl_ScopeLogs =
          [\<lparr>sl_Scope = ''lib'', sl_LogRecords = [''a''], sl_SchemaUrl = ''w''\<rparr>],
        rl_SchemaUrl = ''v''\<rparr>]"]
  by simp

lemma andFilter_all: "andFilter filters r s t = list_all (\<lambda>f. f r s t) filters"
  by (induction filters) simp_all

lemma concat_if_filter:
  "(\<And>x. x \<in> set xs \<Longrightarrow> g x = (if P x then [x] else [])) \<Longrightarrow> concat (map g xs) = filter P xs"
  by (induction xs) simp_all

lemma FilterResourceSpans_eq:
  "FilterResourceSpans src filters = filter (spanLeavesPass filters) (SplitResourceSpans src)"
  unfolding FilterResourceSpans_def Let_def
  by (rule concat_if_filter) (auto dest!: SplitResourceSpans_mem simp: spanLeavesPass_def andFilter_all)

lemma FilterResourceLogs_eq:
  "FilterResourceLogs src filters = filter (logLeavesPass filters) (SplitResourceLogs src)"
  unfolding FilterResourceLogs_def Let_def
  by (rule concat_if_filter) (auto dest!: SplitResourceLogs_mem simp: logLeavesPass_def andFilter_all)

lemma FilterResourceMetrics_eq:
  "FilterResourceMetrics src filters = filter (metricLeavesPass filters) (SplitResourceMetrics src)"
  unfolding FilterResourceMetrics_def Let_def
  by (rule concat_if_filter) (auto dest!: SplitResourceMetrics_mem simp: metricLeavesPass_def andFilter_all)

lemma count_list_filter: "count_list (filter P xs) x = (if P x then count_list xs x else 0)"
  by (induction xs) auto

lemma splitScopeSpans_leaves:
  "splitScopeSpans src
     = concat (map (\<lambda>s. map (\<lambda>sp. \<lparr>ss_Scope = ss_Scope s, ss_Spans = [sp],
                                        ss_SchemaUrl = ss_SchemaUrl s\<rparr>) (ss_Spans s)) src)"
  by (induction src) simp_all

lemma SplitResourceSpans_leaves: "SplitResourceSpans L = map spanTree (spanLeaves L)"
  by (induction L) (simp_all add: spanLeaves_def splitScopeSpans_leaves map_concat comp_def)

lemma spanLeaves_length: "length (spanLeaves L) = TotalSpans L"
  by (induction L) (simp_all add: spanLeaves_def length_concat comp_def)


lemma splitScopeLogs_leaves:
  "splitScopeLogs src
     = concat (map (\<lambda>s. map (\<lambda>lr. \<lparr>sl_Scope = sl_Scope s, sl_LogRecords = [lr],
                                        sl_SchemaUrl = sl_SchemaUrl s\<rparr>) (sl_LogRecords s)) src)"
  by (induction src) simp_all

lemma SplitResourceLogs_leaves: "SplitResourceLogs L = map logTree (logLeaves L)"
  by (induction L) (simp_all add: logLeaves_def splitScopeLogs_leaves map_concat comp_def)

lemma logLeaves_length: "length (logLeaves L) = TotalLogRecords L"
  by (induction L) (simp_all add: logLeaves_def length_concat comp_def)

lemma splitMetrics_leaves: "splitMetrics src = concat (map pointMetrics src)"
proof (induction src)
  case Nil
  then show ?case by simp
next
  case (Cons a src)
  then show ?case by (cases "m_Data a") (simp_all add: pointMetrics_def)
qed

lemma splitScopeMetrics_leaves:
  "splitScopeMetrics src
     = concat (map (\<lambda>s. concat (map (\<lambda>m. map (\<lambda>pm. \<lparr>sm_Scope = sm_Scope s, sm_Metrics = [pm],
                                        sm_SchemaUrl = sm_SchemaUrl s\<rparr>) (pointMetrics m))
                                    (sm_Metrics s))) src)"
  by (induction src) (simp_all add: splitMetrics_leaves map_concat comp_def)

lemma SplitResourceMetrics_leaves: "SplitResourceMetrics L = map metricTree (metricLeaves L)"
  by (induction L) (simp_all add: metricLeaves_def splitScopeMetrics_leaves map_concat comp_def)

lemma pointMetrics_length:
  "length (pointMetrics m)
     = (case m_Data m of
            Metric_Gauge dps \<Rightarrow> length dps
          | Metric_Summary dps \<Rightarrow> length dps
          | Metric_Sum dps at isMonotonic \<Rightarrow> length dps
          | Metric_Histogram dps at \<Rightarrow> length dps
          | Metric_ExponentialHistogram dps at \<Rightarrow> length dps
          | NoData \<Rightarrow> 0)"
  by (cases "m_Data m") (simp_all add: pointMetrics_def)

lemma metricLeaves_length: "length (metricLeaves L) = TotalDataPoints L"
  by (induction L)
     (simp_all add: metricLeaves_def length_concat comp_def pointMetrics_length)

lemma count_list_map_inj:
  "inj f \<Longrightarrow> count_list (map f xs) (f x) = count_list xs x"
  by (induction xs) (auto dest: injD)

lemma spanTree_inj: "inj spanTree"
  by (rule injI) auto

lemma logTree_inj: "inj logTree"
  by (rule injI) auto

lemma metricTree_inj: "inj metricTree"
  by (rule injI) auto

lemma spanLeavesPass_tree: "spanLeavesPass fs (spanTree x) = spanLeafPasses fs x"
  by (cases x) (simp add: spanLeavesPass_def)

lemma logLeavesPass_tree: "logLeavesPass fs (logTree x) = logLeafPasses fs x"
  by (cases x) (simp add: logLeavesPass_def)

lemma metricLeavesPass_tree: "metricLeavesPass fs (metricTree x) = metricLeafPasses fs x"
  by (cases x) (simp add: metricLeavesPass_def)

lemma FilterResourceSpans_leaves:
  "FilterResourceSpans L fs = map spanTree (filter (spanLeafPasses fs) (spanLeaves L))"
  by (simp add: FilterResourceSpans_eq SplitResourceSpans_leaves filter_map comp_def
        spanLeavesPass_tree)

lemma FilterResourceLogs_leaves:
  "FilterResourceLogs L fs = map logTree (filter (logLeafPasses fs) (logLeaves L))"
  by (simp add: FilterResourceLogs_eq SplitResourceLogs_leaves filter_map comp_def
        logLeavesPass_tree)

lemma FilterResourceMetrics_leaves:
  "FilterResourceMetrics L fs = map metricTree (filter (metricLeafPasses fs) (metricLeaves L))"
  by (simp add: FilterResourceMetrics_eq SplitResourceMetrics_leaves filter_map comp_def
        metricLeavesPass_tree)

lemma set_map_filter_ex: "\<forall>t \<in> set (map f (filter P xs)). \<exists>x \<in> set xs. t = f x \<and> P x"
  by auto

text \<open>
  Claim C5.  The leaves of the input are listed from the input itself, in pre-order.  A
  Filter function returns, in that order, the one-leaf tree of each leaf that passes every
  filter and of no other: every tree of the result is the tree of a leaf of the input
  that passes the conjunction, and the tree of a leaf occurs in the result as often as
  the leaf occurs in the input when it passes, that is once for each occurrence, and not
  at all when it does not pass.  The leaves listed are as many as Total counts, and Split
  returns the tree of each of them.
\<close>

theorem filter_keeps_each_passing_leaf_once:
  "FilterResourceSpans Ls fs = map spanTree (filter (spanLeafPasses fs) (spanLeaves Ls))
   \<and> SplitResourceSpans Ls = map spanTree (spanLeaves Ls)
   \<and> length (spanLeaves Ls) = TotalSpans Ls
   \<and> (\<forall>t \<in> set (FilterResourceSpans Ls fs).
         \<exists>x \<in> set (spanLeaves Ls). t = spanTree x \<and> spanLeafPasses fs x)
   \<and> (\<forall>x. count_list (FilterResourceSpans Ls fs) (spanTree x)
            = (if spanLeafPasses fs x then count_list (spanLeaves Ls) x else 0))
   \<and> FilterResourceMetrics Lm fm = map metricTree (filter (metricLeafPasses fm) (metricLeaves Lm))
   \<and> SplitResourceMetrics Lm = map metricTree (metricLeaves Lm)
   \<and> length (metricLeaves Lm) = TotalDataPoints Lm
   \<and> (\<forall>t \<in> set (FilterResourceMetrics Lm fm).
         \<exists>x \<in> set (metricLeaves Lm). t = metricTree x \<and> metricLeafPasses fm x)
   \<and> (\<forall>x. count_list (FilterResourceMetrics Lm fm) (metricTree x)
            = (if metricLeafPasses fm x then count_list (metricLeaves Lm) x else 0))
   \<and> FilterResourceLogs Ll fl = map logTree (filter (logLeafPasses fl) (logLeaves Ll))
   \<and> SplitResourceLogs Ll = map logTree (logLeaves Ll)
   \<and> length (logLeaves Ll) = TotalLogRecords Ll
   \<and> (\<forall>t \<in> set (FilterResourceLogs Ll fl).
         \<exists>x \<in> set (logLeaves Ll). t = logTree x \<and> logLeafPasses fl x)
   \<and> (\<forall>x. count_list (FilterResourceLogs Ll fl) (logTree x)
            = (if logLeafPasses fl x then count_list (logLeaves Ll) x else 0))"
proof -
  have s: "\<forall>x. count_list (FilterResourceSpans Ls fs) (spanTree x)
            = (if spanLeafPasses fs x then count_list (spanLeaves Ls) x else 0)"
    by (simp add: FilterResourceSpans_leaves count_list_map_inj[OF spanTree_inj] count_list_filter)
  have m: "\<forall>x. count_list (FilterResourceMetrics Lm fm) (metricTree x)
            = (if metricLeafPasses fm x then count_list (metricLeaves Lm) x else 0)"
    by (simp add: FilterResourceMetrics_leaves count_list_map_inj[OF metricTree_inj] count_list_filter)
  have l: "\<forall>x. count_list (FilterResourceLogs Ll fl) (logTree x)
            = (if logLeafPasses fl x then count_list (logLeaves Ll) x else 0)"
    by (simp add: FilterResourceLogs_leaves count_list_map_inj[OF logTree_inj] count_list_filter)
  have s2: "\<forall>t \<in> set (FilterResourceSpans Ls fs).
         \<exists>x \<in> set (spanLeaves Ls). t = spanTree x \<and> spanLeafPasses fs x"
    unfolding FilterResourceSpans_leaves by (rule set_map_filter_ex)
  have m2: "\<forall>t \<in> set (FilterResourceMetrics Lm fm).
         \<exists>x \<in> set (metricLeaves Lm). t = metricTree x \<and> metricLeafPasses fm x"
    unfolding FilterResourceMetrics_leaves by (rule set_map_filter_ex)
  have l2: "\<forall>t \<in> set (FilterResourceLogs Ll fl).
         \<exists>x \<in> set (logLeaves Ll). t = logTree x \<and> logLeafPasses fl x"
    unfolding FilterResourceLogs_leaves by (rule set_map_filter_ex)
  show ?thesis
    using s m l s2 m2 l2
    by (simp only: FilterResourceSpans_leaves[symmetric] FilterResourceMetrics_leaves[symmetric]
          FilterResourceLogs_leaves[symmetric] SplitResourceSpans_leaves[symmetric]
          SplitResourceMetrics_leaves[symmetric] SplitResourceLogs_leaves[symmetric]
          spanLeaves_length metricLeaves_length logLeaves_length simp_thms)
qed

theorem filter_keeps_each_passing_leaf_once_witness:
  "FilterResourceSpans
      [\<lparr>rs_Resource = ''svc'', rs_ScopeSpans =
          [\<lparr>ss_Scope = ''lib'', ss_Spans = [1, 2, 3 :: nat], ss_SchemaUrl = ''u''\<rparr>],
        rs_SchemaUrl = ''v''\<rparr>]
      [\<lambda>r s sp. 1 < sp, \<lambda>r s sp. sp < 3]
    = [\<lparr>rs_Resource = ''svc'', rs_ScopeSpans =
          [\<lparr>ss_Scope = ''lib'', ss_Spans = [2], ss_SchemaUrl = ''u''\<rparr>],
        rs_SchemaUrl = ''v''\<rparr>]
   \<and> spanLeaves
      [\<lparr>rs_Resource = ''svc'', rs_ScopeSpans =
          [\<lparr>ss_Scope = ''lib'', ss_Spans = [1, 2, 3 :: nat], ss_SchemaUrl = ''u''\<rparr>],
        rs_SchemaUrl = ''v''\<rparr>]
    = [(''svc'', ''v'', ''lib'', ''u'', 1), (''svc'', ''v'', ''lib'', ''u'', 2),
       (''svc'', ''v'', ''lib'', ''u'', 3)]
   \<and> FilterResourceMetrics
      [\<lparr>rm_Resource = ''svc'', rm_ScopeMetrics =
          [\<lparr>sm_Scope = ''lib'', sm_Metrics =
              [\<lparr>m_Name = ''c'', m_Description = ''d'', m_Unit = ''1'', m_Metadata = (),
                m_Data = Metric_Gauge [5, 6 :: nat]\<rparr>], sm_SchemaUrl = ''u''\<rparr>],
        rm_SchemaUrl = ''v''\<rparr>]
      [\<lambda>r s m. m_Data m = Metric_Gauge [6]]
    = [\<lparr>rm_Resource = ''svc'', rm_ScopeMetrics =
          [\<lparr>sm_Scope = ''lib'', sm_Metrics =
              [\<lparr>m_Name = ''c'', m_Description = ''d'', m_Unit = ''1'', m_Metadata = (),
                m_Data = Metric_Gauge [6]\<rparr>], sm_SchemaUrl = ''u''\<rparr>],
        rm_SchemaUrl = ''v''\<rparr>]
   \<and> FilterResourceLogs
      [\<lparr>rl_Resource = ''svc'', rl_ScopeLogs =
          [\<lparr>sl_Scope = ''lib'', sl_LogRecords = [''a'', ''b''], sl_SchemaUrl = ''u''\<rparr>],
        rl_SchemaUrl = ''v''\<rparr>]
      [\<lambda>r s lr. lr = ''b'']
    = [\<lparr>rl_Resource = ''svc'', rl_ScopeLogs =
          [\<lparr>sl_Scope = ''lib'', sl_LogRecords = [''b''], sl_SchemaUrl = ''u''\<rparr>],
        rl_SchemaUrl = ''v''\<rparr>]"
proof -
  let ?Ls = "[\<lparr>rs_Resource = ''svc'', rs_ScopeSpans =
          [\<lparr>ss_Scope = ''lib'', ss_Spans = [1, 2, 3 :: nat], ss_SchemaUrl = ''u''\<rparr>],
        rs_SchemaUrl = ''v''\<rparr>]"
  let ?Lm = "[\<lparr>rm_Resource = ''svc'', rm_ScopeMetrics =
          [\<lparr>sm_Scope = ''lib'', sm_Metrics =
              [\<lparr>m_Name = ''c'', m_Description = ''d'', m_Unit = ''1'', m_Metadata = (),
                m_Data = Metric_Gauge [5, 6 :: nat]\<rparr>], sm_SchemaUrl = ''u''\<rparr>],
        rm_SchemaUrl = ''v''\<rparr>]"
  let ?Ll = "[\<lparr>rl_Resource = ''svc'', rl_ScopeLogs =
          [\<lparr>sl_Scope = ''lib'', sl_LogRecords = [''a'', ''b''], sl_SchemaUrl = ''u''\<rparr>],
        rl_SchemaUrl = ''v''\<rparr>]"
  note T = filter_keeps_each_passing_leaf_once[where Ls = ?Ls and Lm = ?Lm and Ll = ?Ll
      and fs = "[\<lambda>r s sp. 1 < sp, \<lambda>r s sp. sp < 3]"
      and fm = "[\<lambda>r s m. m_Data m = Metric_Gauge [6]]"
      and fl = "[\<lambda>r s lr. lr = ''b'']"]
  have a: "FilterResourceSpans ?Ls [\<lambda>r s sp. 1 < sp, \<lambda>r s sp. sp < 3]
      = map spanTree (filter (spanLeafPasses [\<lambda>r s sp. 1 < sp, \<lambda>r s sp. sp < 3]) (spanLeaves ?Ls))"
    using T by blast
  have b: "FilterResourceMetrics ?Lm [\<lambda>r s m. m_Data m = Metric_Gauge [6]]
      = map metricTree (filter (metricLeafPasses [\<lambda>r s m. m_Data m = Metric_Gauge [6]]) (metricLeaves ?Lm))"
    using T by blast
  have c: "FilterResourceLogs ?Ll [\<lambda>r s lr. lr = ''b'']
      = map logTree (filter (logLeafPasses [\<lambda>r s lr. lr = ''b'']) (logLeaves ?Ll))"
    using T by blast
  show ?thesis
    unfolding a b c
    by (simp add: spanLeaves_def metricLeaves_def logLeaves_def pointMetrics_def)
qed


section \<open>Properties of the server multiplexer and the HTTP bridge\<close>

lemma fold_wrap:
  "fold (\<lambda>mw next. (\<lambda>h. mw (next h))) xs c h = foldr (\<lambda>m w. m w) (rev xs) (c h)"
  by (induction xs arbitrary: c) simp_all

lemma chainedMiddleware_foldr:
  "chainedMiddleware middlewares h = foldr (\<lambda>m w. m w) middlewares h"
proof (cases middlewares rule: rev_cases)
  case Nil
  then show ?thesis by (simp add: chainedMiddleware_def)
next
  case (snoc ms m)
  then show ?thesis by (simp add: chainedMiddleware_def fold_wrap)
qed

lemma getHandler_foldr:
  "getHandler e = map_option (\<lambda>h. foldr (\<lambda>m w. m w) (e_middlewares e) h) (e_h e)"
  by (simp add: getHandler_def foldr_conv_fold split: option.splits)

lemma foldr_probe:
  "foldr (\<lambda>m w. m w) (map probe vs) next ctx req
     = next (map (WithValue ''probe'') (rev vs) @ ctx) req"
  by (induction vs arbitrary: ctx) (simp_all add: probe_def)

lemma eraseHandler_probe:
  "foldr (\<lambda>m w. m w) (map probe ts) (eraseHandler base) ctx (Request req)
     = eraseHandler base (map (WithValue ''probe'') (rev ts) @ ctx) (Request req)"
  by (rule foldr_probe)

lemma Export_probe:
  assumes "e_h e = Some h" and "e_middlewares e = map probe us"
  shows "Export (map probe ts) e ctx req = h (map (WithValue ''probe'') (rev (ts @ us)) @ ctx) req"
proof -
  have g: "getHandler e = Some (foldr (\<lambda>m w. m w) (map probe us) h)"
    using assms by (simp add: getHandler_foldr)
  show ?thesis
    unfolding Export_def g
    by (simp add: chainedMiddleware_foldr foldr_probe eraseHandler_def split: outcome.splits)
qed

lemma proxy_cong:
  "(\<And>ctx req. handler (IncomingMD md # c0) req = h (pre @ IncomingMD md # c0) req) \<Longrightarrow>
   r_Context r = IncomingMD md # c0 \<Longrightarrow>
   proxyHandler_ServeHTTP wire handler r
     = proxyHandler_ServeHTTP wire h (r\<lparr>r_Context := pre @ IncomingMD md # c0\<rparr>)"
  by (simp add: proxyHandler_ServeHTTP_def serveHTTPWithProto_def serveHTTPWithJSON_def Let_def
           split: sum.splits)

text \<open>
  Claim C6.  For a signal with a registered handler: over the binary-RPC transport and
  over HTTP alike the request runs through \<open>Export\<close>, where the cross-signal chain
  wraps the erased per-signal chain, and within each chain the middleware at the front
  of the list is the outermost; \<open>Use\<close> puts a middleware at the end of its list, so the
  front is the first registered.  With middlewares that record a value in the context,
  the user handler is called with the values of the cross-signal chain written first and
  those of the per-signal chain after them, each in registration order (the context lists
  the newest link first).
\<close>

theorem middleware_nesting_order:
  assumes "mux_entries mux s = Some e" and "e_h e = Some h"
      and "s \<in> set registered" and "map_of (mux_httpMux mux) (r_Path r) = Some s"
  shows
   "grpcExport registered mux s ctx req
      = (case foldr (\<lambda>m w. m w) (mux_middlewares mux)
               (eraseHandler (foldr (\<lambda>m w. m w) (e_middlewares e) h)) ctx (Request req) of
           Fail err \<Rightarrow> Fail err
         | Panic \<Rightarrow> Panic
         | Return resp \<Rightarrow>
             (case resp of
                Response traceResp \<Rightarrow> Return traceResp
              | _ \<Rightarrow> Fail (StatusErr \<lparr>st_Code = Internal, st_Message = ''unexpected response type'',
                                       st_Details = []\<rparr>)))
    \<and> ServerMux_ServeHTTP wire mux r
      = proxyHandler_ServeHTTP wire (Export (mux_middlewares mux) e)
          (r\<lparr>r_Context := IncomingMD (r_Header r) # r_Context r\<rparr>)
    \<and> mux_middlewares (Use mux m) = mux_middlewares mux @ m
    \<and> map_option e_middlewares (mux_entries (entryUse mux s sm) s) = Some (e_middlewares e @ sm)
    \<and> (mux_middlewares mux = map probe ts \<and> e_middlewares e = map probe us \<longrightarrow>
         grpcExport registered mux s ctx req
           = h (map (WithValue ''probe'') (rev (ts @ us)) @ ctx) req
         \<and> ServerMux_ServeHTTP wire mux r
           = proxyHandler_ServeHTTP wire h
               (r\<lparr>r_Context := map (WithValue ''probe'') (rev (ts @ us))
                                  @ IncomingMD (r_Header r) # r_Context r\<rparr>))"
proof -
  have g: "grpcExport registered mux s ctx req = Export (mux_middlewares mux) e ctx req"
    using assms by (simp add: grpcExport_def)
  have c1: "Export (mux_middlewares mux) e ctx req
      = (case foldr (\<lambda>m w. m w) (mux_middlewares mux)
               (eraseHandler (foldr (\<lambda>m w. m w) (e_middlewares e) h)) ctx (Request req) of
           Fail err \<Rightarrow> Fail err
         | Panic \<Rightarrow> Panic
         | Return resp \<Rightarrow>
             (case resp of
                Response traceResp \<Rightarrow> Return traceResp
              | _ \<Rightarrow> Fail (StatusErr \<lparr>st_Code = Internal, st_Message = ''unexpected response type'',
                                       st_Details = []\<rparr>)))"
    using assms(2) by (simp add: Export_def getHandler_foldr chainedMiddleware_foldr)
  have c2: "ServerMux_ServeHTTP wire mux r
      = proxyHandler_ServeHTTP wire (Export (mux_middlewares mux) e)
          (r\<lparr>r_Context := IncomingMD (r_Header r) # r_Context r\<rparr>)"
    using assms by (simp add: ServerMux_ServeHTTP_def Let_def)
  have c3: "mux_middlewares (Use mux m) = mux_middlewares mux @ m"
    by (simp add: Use_def)
  have c4: "map_option e_middlewares (mux_entries (entryUse mux s sm) s) = Some (e_middlewares e @ sm)"
    using assms(1) by (simp add: entryUse_def updEntry_def getEntry_def)
  have c5: "grpcExport registered mux s ctx req
           = h (map (WithValue ''probe'') (rev (ts @ us)) @ ctx) req"
    if "mux_middlewares mux = map probe ts" "e_middlewares e = map probe us"
    using that g Export_probe[OF assms(2), of us ts ctx req] by simp
  have c6: "ServerMux_ServeHTTP wire mux r
           = proxyHandler_ServeHTTP wire h
               (r\<lparr>r_Context := map (WithValue ''probe'') (rev (ts @ us))
                                  @ IncomingMD (r_Header r) # r_Context r\<rparr>)"
    if p: "mux_middlewares mux = map probe ts" "e_middlewares e = map probe us"
  proof -
    have "proxyHandler_ServeHTTP wire (Export (mux_middlewares mux) e)
            (r\<lparr>r_Context := IncomingMD (r_Header r) # r_Context r\<rparr>)
          = proxyHandler_ServeHTTP wire h
            ((r\<lparr>r_Context := IncomingMD (r_Header r) # r_Context r\<rparr>)
               \<lparr>r_Context := map (WithValue ''probe'') (rev (ts @ us))
                                  @ IncomingMD (r_Header r) # r_Context r\<rparr>)"
      by (rule proxy_cong) (simp_all add: p(1) Export_probe[OF assms(2) p(2)])
    then show ?thesis using c2 by simp
  qed
  show ?thesis using g c1 c2 c3 c4 c5 c6 by simp
qed

lemma testMux_eval:
  "mux_entries testMux Traces = Some \<lparr>e_middlewares = [probe ''inner''], e_h = Some (\<lambda>ctx req. Return ctx)\<rparr>"
  "mux_middlewares testMux = [probe ''outer'']"
  "mux_httpMux testMux = [(''/v1/traces'', Traces)]"
  "Register testMux = [Traces]"
  by (simp_all add: testMux_def configured_def Handle_def entryUse_def Use_def updEntry_def getEntry_def
        newEntry_def NewServerMux_def Register_def)

theorem middleware_nesting_order_witness:
  "grpcExport (Register testMux) testMux Traces [] 7
     = Return [WithValue ''probe'' ''inner'', WithValue ''probe'' ''outer'']
   \<and> ServerMux_ServeHTTP testWire testMux (testRequest ''application/x-protobuf'' ''abc'')
     = Some \<lparr>w_Status = 200, w_ContentType = ''application/x-protobuf'',
             w_Body = ProtoBytes [WithValue ''probe'' ''inner'', WithValue ''probe'' ''outer'',
                                  IncomingMD [(''Content-Type'', [''application/x-protobuf''])]]\<rparr>"
proof -
  let ?e = "\<lparr>e_middlewares = [probe ''inner''], e_h = Some (\<lambda>(ctx :: Context) (req :: nat). Return ctx)\<rparr>"
  have a1: "mux_entries testMux Traces = Some ?e" by (simp add: testMux_eval)
  have a2: "e_h ?e = Some (\<lambda>ctx req. Return ctx)" by simp
  have a3: "Traces \<in> set (Register testMux)" by (simp add: testMux_eval)
  have a4: "map_of (mux_httpMux testMux) (r_Path (testRequest ''application/x-protobuf'' ''abc'')) = Some Traces"
    by (simp add: testMux_eval testRequest_def)
  have p: "mux_middlewares testMux = map probe [''outer''] \<and> e_middlewares ?e = map probe [''inner'']"
    by (simp add: testMux_eval)
  note t = middleware_nesting_order[OF a1 a2 a3 a4,
      where ctx = "[]" and req = 7 and wire = testWire and ts = "[''outer'']" and us = "[''inner'']"
        and m = "[]" and sm = "[]"]
  from t p have g: "grpcExport (Register testMux) testMux Traces [] 7
      = (\<lambda>ctx req. Return ctx) (map (WithValue ''probe'') (rev ([''outer''] @ [''inner''])) @ []) (7 :: nat)"
    by blast
  from t p have h: "ServerMux_ServeHTTP testWire testMux (testRequest ''application/x-protobuf'' ''abc'')
      = proxyHandler_ServeHTTP testWire (\<lambda>ctx req. Return ctx)
          ((testRequest ''application/x-protobuf'' ''abc'')
             \<lparr>r_Context := map (WithValue ''probe'') (rev ([''outer''] @ [''inner'']))
                 @ IncomingMD (r_Header (testRequest ''application/x-protobuf'' ''abc''))
                 # r_Context (testRequest ''application/x-protobuf'' ''abc'')\<rparr>)"
    by blast
  show ?thesis
    unfolding g h
    by (simp add: testRequest_def testWire_def proxyHandler_ServeHTTP_def
        serveHTTPWithProto_def proto_Unmarshal_def Header_Get_def)
qed

lemma signalPath_inj: "signalPath a = signalPath b \<Longrightarrow> a = b"
  by (cases a; cases b) simp_all

lemma routesMatch_New: "routesMatch NewServerMux"
  by (simp add: routesMatch_def NewServerMux_def)

lemma map_of_snoc:
  "map_of (xs @ [(k, v)]) p
     = (case map_of xs p of Some w \<Rightarrow> Some w | None \<Rightarrow> if p = k then Some v else None)"
  by (induction xs) auto

lemma routesMatch_newEntry:
  assumes "routesMatch mux"
  shows "routesMatch (newEntry mux s)"
proof (cases "mux_entries mux s")
  case (Some e)
  then show ?thesis using assms by (simp add: newEntry_def)
next
  case None
  have inv: "\<And>p t. (map_of (mux_httpMux mux) p = Some t)
                 = (p = signalPath t \<and> mux_entries mux t \<noteq> None)"
    using assms unfolding routesMatch_def by blast
  have "(map_of (mux_httpMux mux @ [(signalPath s, s)]) p = Some t)
           = (p = signalPath t \<and> ((mux_entries mux)(s := Some \<lparr>e_middlewares = [], e_h = None\<rparr>)) t \<noteq> None)"
    for p t
  proof (cases "map_of (mux_httpMux mux) p")
    case N: None
    then have no: "\<And>u. \<not> (p = signalPath u \<and> mux_entries mux u \<noteq> None)"
      using inv by (metis option.distinct(1))
    show ?thesis
    proof (cases "t = s")
      case True
      then show ?thesis using N by (simp add: map_of_snoc del: map_of_append)
    next
      case False
      then have "signalPath t \<noteq> signalPath s" using signalPath_inj by blast
      then show ?thesis using N False no[of t] by (auto simp: map_of_snoc simp del: map_of_append)
    qed
  next
    case S: (Some w)
    then have w: "p = signalPath w" "mux_entries mux w \<noteq> None" using inv by blast+
    then have "w \<noteq> s" using None by auto
    show ?thesis
    proof (cases "t = w")
      case True
      then show ?thesis using S w \<open>w \<noteq> s\<close> by (simp add: map_of_snoc del: map_of_append)
    next
      case False
      then have "signalPath t \<noteq> signalPath w" using signalPath_inj by blast
      then show ?thesis using S w False by (simp add: map_of_snoc del: map_of_append)
    qed
  qed
  then show ?thesis using None by (simp add: routesMatch_def newEntry_def)
qed

lemma routesMatch_getEntry: "routesMatch mux \<Longrightarrow> routesMatch (getEntry mux s)"
  by (simp add: getEntry_def routesMatch_newEntry split: option.splits)

lemma getEntry_some: "mux_entries (getEntry mux s) s \<noteq> None"
  by (cases "mux_entries mux s") (simp_all add: getEntry_def newEntry_def)

lemma routesMatch_updEntry:
  assumes "routesMatch mux"
  shows "routesMatch (updEntry f mux s)"
proof -
  have "(((mux_entries mux)(s := map_option f (mux_entries mux s))) t \<noteq> None)
          = (mux_entries mux t \<noteq> None)" for t
    by (cases "t = s") simp_all
  then show ?thesis using assms by (simp add: routesMatch_def updEntry_def)
qed

lemma routesMatch_call:
  assumes "routesMatch mux"
  shows "routesMatch (call mux c)"
proof (cases c)
  case (CallUse m)
  then show ?thesis using assms by (simp add: Use_def routesMatch_def)
next
  case (CallEntry s)
  then show ?thesis using assms by (simp add: routesMatch_getEntry)
next
  case (CallEntryUse s m)
  then show ?thesis using assms by (simp add: entryUse_def routesMatch_getEntry routesMatch_updEntry)
next
  case (CallHandle s handler)
  then show ?thesis using assms by (simp add: Handle_def routesMatch_getEntry routesMatch_updEntry)
qed

lemma routesMatch_foldl: "routesMatch mux \<Longrightarrow> routesMatch (foldl call mux calls)"
  by (induction calls arbitrary: mux) (simp_all add: routesMatch_call)

lemma routesMatch_configured: "routesMatch (configured calls)"
  by (simp add: configured_def routesMatch_foldl routesMatch_New)

lemma no_entry_no_route:
  "mux_entries (configured calls) s = None \<Longrightarrow> map_of (mux_httpMux (configured calls)) (signalPath s) = None"
proof -
  assume n: "mux_entries (configured calls) s = None"
  have inv: "\<And>p t. (map_of (mux_httpMux (configured calls)) p = Some t)
                 = (p = signalPath t \<and> mux_entries (configured calls) t \<noteq> None)"
    using routesMatch_configured[of calls] unfolding routesMatch_def by blast
  show ?thesis
  proof (cases "map_of (mux_httpMux (configured calls)) (signalPath s)")
    case None
    then show ?thesis .
  next
    case (Some t)
    then have st: "signalPath s = signalPath t \<and> mux_entries (configured calls) t \<noteq> None"
      by (simp add: inv)
    then have "s = t" by (simp add: signalPath_inj)
    then show ?thesis using n st by simp
  qed
qed

lemma entry_route:
  "mux_entries (configured calls) s = Some e \<Longrightarrow> map_of (mux_httpMux (configured calls)) (signalPath s) = Some s"
proof -
  assume a: "mux_entries (configured calls) s = Some e"
  have "(map_of (mux_httpMux (configured calls)) (signalPath s) = Some s)
          = (signalPath s = signalPath s \<and> mux_entries (configured calls) s \<noteq> None)"
    using routesMatch_configured[of calls] unfolding routesMatch_def by blast
  then show ?thesis using a by simp
qed

lemma Export_no_handler: "e_h e = None \<Longrightarrow> Export mws e = (\<lambda>ctx req. unimplementedExport)"
  by (rule ext, rule ext) (simp add: Export_def getHandler_def)

lemma grpc_no_handler:
  assumes "noHandler mux s"
  shows "\<exists>msg. grpcExport registered mux s ctx req
           = Fail (StatusErr \<lparr>st_Code = Unimplemented, st_Message = msg, st_Details = []\<rparr>)"
proof (cases "mux_entries mux s")
  case None
  then show ?thesis by (simp add: grpcExport_def)
next
  case (Some e)
  then have "e_h e = None" using assms by (simp add: noHandler_def)
  then show ?thesis using Some
    by (simp add: grpcExport_def Export_no_handler unimplementedExport_def)
qed

lemma http_no_entry:
  assumes "mux_entries (configured calls) s = None" and "r_Path r = signalPath s"
  shows "ServerMux_ServeHTTP wire (configured calls) r
     = Some (if Header_Get (r_Header r) ''Content-Type'' = ''application/x-protobuf''
               then errorProto notFoundStatus
             else if Header_Get (r_Header r) ''Content-Type'' = ''application/json''
               then errorJSON notFoundStatus
             else http_Error ''Not Found'' 404)"
  using no_entry_no_route[OF assms(1)] assms(2)
  by (simp add: ServerMux_ServeHTTP_def Let_def notFoundStatus_def)

lemma http_entry_no_handler:
  assumes "mux_entries (configured calls) s = Some e" and "e_h e = None" and "r_Path r = signalPath s"
  shows "ServerMux_ServeHTTP wire (configured calls) r
     = proxyHandler_ServeHTTP wire (\<lambda>ctx req. unimplementedExport)
         (r\<lparr>r_Context := IncomingMD (r_Header r) # r_Context r\<rparr>)"
  using entry_route[OF assms(1)] assms
  by (simp add: ServerMux_ServeHTTP_def Let_def Export_no_handler)

lemma proxy_unimplemented:
  assumes "r_Method r = ''POST''" and "r_Body r = Inr b"
  shows "Header_Get (r_Header r) ''Content-Type'' = ''application/x-protobuf'' \<Longrightarrow>
           proto_Unmarshal wire b = Inr q \<Longrightarrow>
           proxyHandler_ServeHTTP wire (\<lambda>ctx req. unimplementedExport) r
             = Some (errorProto unimplementedStatus)"
    and "Header_Get (r_Header r) ''Content-Type'' = ''application/json'' \<Longrightarrow>
           protojson_Unmarshal wire b = Inr q \<Longrightarrow>
           proxyHandler_ServeHTTP wire (\<lambda>ctx req. unimplementedExport) r
             = Some (errorJSON unimplementedStatus)"
  using assms
  by (simp_all add: proxyHandler_ServeHTTP_def serveHTTPWithProto_def serveHTTPWithJSON_def
        unimplementedExport_def unimplementedStatus_def)

text \<open>
  Claim C7, as the code has it.  For a signal without a registered handler an export call
  over the binary-RPC transport returns status Unimplemented.  Over HTTP a request for the
  signal's path is answered 404 (the NotFound status in the codec of the request's content
  type, plain text for any other content type) when the signal has no entry, that is when
  \<open>Trace()\<close>, \<open>Metrics()\<close> or \<open>Logs()\<close> was never called.  When the entry exists
  and holds no handler, the route exists too: the request goes through the HTTP bridge with
  a handler that answers Unimplemented, so a POST whose body decodes is answered 501 with
  the Unimplemented status in the request's codec.
\<close>

theorem no_handler_unimplemented_or_not_found:
  "(noHandler mux s \<longrightarrow>
      (\<exists>msg. grpcExport registered mux s ctx req
           = Fail (StatusErr \<lparr>st_Code = Unimplemented, st_Message = msg, st_Details = []\<rparr>)))
   \<and> (mux_entries (configured calls) s = None \<and> r_Path r = signalPath s \<longrightarrow>
        ServerMux_ServeHTTP wire (configured calls) r
          = Some (if Header_Get (r_Header r) ''Content-Type'' = ''application/x-protobuf''
                    then errorProto notFoundStatus
                  else if Header_Get (r_Header r) ''Content-Type'' = ''application/json''
                    then errorJSON notFoundStatus
                  else http_Error ''Not Found'' 404)
        \<and> map_option w_Status (ServerMux_ServeHTTP wire (configured calls) r) = Some 404)
   \<and> (mux_entries (configured calls) s = Some e \<and> e_h e = None \<and> r_Path r = signalPath s \<longrightarrow>
        ServerMux_ServeHTTP wire (configured calls) r
          = proxyHandler_ServeHTTP wire (\<lambda>ctx req. unimplementedExport)
              (r\<lparr>r_Context := IncomingMD (r_Header r) # r_Context r\<rparr>)
        \<and> (r_Method r = ''POST'' \<and> r_Body r = Inr b \<longrightarrow>
             (Header_Get (r_Header r) ''Content-Type'' = ''application/x-protobuf''
                \<and> proto_Unmarshal wire b = Inr q \<longrightarrow>
              ServerMux_ServeHTTP wire (configured calls) r = Some (errorProto unimplementedStatus))
           \<and> (Header_Get (r_Header r) ''Content-Type'' = ''application/json''
                \<and> protojson_Unmarshal wire b = Inr q \<longrightarrow>
              ServerMux_ServeHTTP wire (configured calls) r = Some (errorJSON unimplementedStatus))))"
proof (intro conjI impI)
  assume "noHandler mux s"
  then show "\<exists>msg. grpcExport registered mux s ctx req
           = Fail (StatusErr \<lparr>st_Code = Unimplemented, st_Message = msg, st_Details = []\<rparr>)"
    by (rule grpc_no_handler)
next
  assume a: "mux_entries (configured calls) s = None \<and> r_Path r = signalPath s"
  then show e: "ServerMux_ServeHTTP wire (configured calls) r
          = Some (if Header_Get (r_Header r) ''Content-Type'' = ''application/x-protobuf''
                    then errorProto notFoundStatus
                  else if Header_Get (r_Header r) ''Content-Type'' = ''application/json''
                    then errorJSON notFoundStatus
                  else http_Error ''Not Found'' 404)"
    using http_no_entry[of calls s r wire] by blast
  show "map_option w_Status (ServerMux_ServeHTTP wire (configured calls) r) = Some 404"
    unfolding e by (simp add: errorProto_def errorJSON_def http_Error_def notFoundStatus_def)
next
  assume a: "mux_entries (configured calls) s = Some e \<and> e_h e = None \<and> r_Path r = signalPath s"
  then show "ServerMux_ServeHTTP wire (configured calls) r
          = proxyHandler_ServeHTTP wire (\<lambda>ctx req. unimplementedExport)
              (r\<lparr>r_Context := IncomingMD (r_Header r) # r_Context r\<rparr>)"
    using http_entry_no_handler[of calls s e r wire] by blast
next
  assume a: "mux_entries (configured calls) s = Some e \<and> e_h e = None \<and> r_Path r = signalPath s"
     and b: "r_Method r = ''POST'' \<and> r_Body r = Inr b"
     and c: "Header_Get (r_Header r) ''Content-Type'' = ''application/x-protobuf'' \<and> proto_Unmarshal wire b = Inr q"
  have "ServerMux_ServeHTTP wire (configured calls) r
          = proxyHandler_ServeHTTP wire (\<lambda>ctx req. unimplementedExport)
              (r\<lparr>r_Context := IncomingMD (r_Header r) # r_Context r\<rparr>)"
    using a http_entry_no_handler[of calls s e r wire] by blast
  also have "\<dots> = Some (errorProto unimplementedStatus)"
    by (rule proxy_unimplemented(1)[where b = b and q = q]) (use b c in simp_all)
  finally show "ServerMux_ServeHTTP wire (configured calls) r = Some (errorProto unimplementedStatus)" .
next
  assume a: "mux_entries (configured calls) s = Some e \<and> e_h e = None \<and> r_Path r = signalPath s"
     and b: "r_Method r = ''POST'' \<and> r_Body r = Inr b"
     and c: "Header_Get (r_Header r) ''Content-Type'' = ''application/json'' \<and> protojson_Unmarshal wire b = Inr q"
  have "ServerMux_ServeHTTP wire (configured calls) r
          = proxyHandler_ServeHTTP wire (\<lambda>ctx req. unimplementedExport)
              (r\<lparr>r_Context := IncomingMD (r_Header r) # r_Context r\<rparr>)"
    using a http_entry_no_handler[of calls s e r wire] by blast
  also have "\<dots> = Some (errorJSON unimplementedStatus)"
    by (rule proxy_unimplemented(2)[where b = b and q = q]) (use b c in simp_all)
  finally show "ServerMux_ServeHTTP wire (configured calls) r = Some (errorJSON unimplementedStatus)" .
qed

lemma bareMux_eval:
  "mux_entries bareMux Traces = Some \<lparr>e_middlewares = [probe ''x''], e_h = None\<rparr>"
  "mux_entries bareMux Metrics = None"
  "mux_middlewares bareMux = []"
  "mux_httpMux bareMux = [(''/v1/traces'', Traces)]"
  by (simp_all add: bareMux_def configured_def entryUse_def updEntry_def getEntry_def
        newEntry_def NewServerMux_def)

text \<open>
  Claim C7 as stated fails on a multiplexer whose trace entry was created without a
  handler: the signal has no handler, yet a POST to \<open>/v1/traces\<close> is answered 501.
\<close>

theorem no_handler_http_status_counterexample:
  "noHandler bareMux Traces
   \<and> ServerMux_ServeHTTP testWire bareMux (testRequest ''application/x-protobuf'' [])
      = Some \<lparr>w_Status = 501, w_ContentType = ''application/x-protobuf'',
              w_Body = StatusProtoBytes \<lparr>st_Code = Unimplemented,
                         st_Message = ''method Export not implemented'', st_Details = []\<rparr>\<rparr>"
  by (simp add: noHandler_def bareMux_eval ServerMux_ServeHTTP_def testRequest_def testWire_def
        proxyHandler_ServeHTTP_def serveHTTPWithProto_def proto_Unmarshal_def Header_Get_def
        Export_def getHandler_def unimplementedExport_def errorProto_def)

theorem no_handler_unimplemented_or_not_found_witness:
  "noHandler bareMux Metrics
   \<and> (\<exists>msg. grpcExport (Register bareMux) bareMux Metrics [] 7
           = Fail (StatusErr \<lparr>st_Code = Unimplemented, st_Message = msg, st_Details = []\<rparr>))
   \<and> mux_entries (configured [CallEntryUse Traces [probe ''x'']] :: (nat, Context) ServerMux) Metrics = None
   \<and> ServerMux_ServeHTTP testWire (configured [CallEntryUse Traces [probe ''x'']] :: (nat, Context) ServerMux)
        ((testRequest ''application/json'' ''{}'')\<lparr>r_Path := ''/v1/metrics''\<rparr>)
      = Some (errorJSON notFoundStatus)
   \<and> ServerMux_ServeHTTP testWire (configured [CallEntryUse Traces [probe ''x'']] :: (nat, Context) ServerMux)
        (testRequest ''application/json'' ''{}'')
      = Some (errorJSON unimplementedStatus)"
proof -
  let ?calls = "[CallEntryUse Traces [probe ''x'']] :: (nat, Context) mux_call list"
  let ?e = "\<lparr>e_middlewares = [probe ''x''], e_h = None\<rparr> :: (nat, Context) entry"
  have n: "noHandler bareMux Metrics" by (simp add: noHandler_def bareMux_eval)
  have m: "mux_entries (configured ?calls) Metrics = None"
    using bareMux_eval(2) by (simp add: bareMux_def)
  have t: "mux_entries (configured ?calls) Traces = Some ?e \<and> e_h ?e = None"
    using bareMux_eval(1) by (simp add: bareMux_def)
  have g: "\<exists>msg. grpcExport (Register bareMux) bareMux Metrics [] 7
           = Fail (StatusErr \<lparr>st_Code = Unimplemented, st_Message = msg, st_Details = []\<rparr>)"
    by (rule mp[OF conjunct1[OF no_handler_unimplemented_or_not_found] n])
  let ?r1 = "(testRequest ''application/json'' ''{}'')\<lparr>r_Path := ''/v1/metrics''\<rparr>"
  let ?r2 = "testRequest ''application/json'' ''{}''"
  have p1: "mux_entries (configured ?calls) Metrics = None \<and> r_Path ?r1 = signalPath Metrics"
    using m by (simp add: testRequest_def)
  have "ServerMux_ServeHTTP testWire (configured ?calls) ?r1
          = Some (if Header_Get (r_Header ?r1) ''Content-Type'' = ''application/x-protobuf''
                    then errorProto notFoundStatus
                  else if Header_Get (r_Header ?r1) ''Content-Type'' = ''application/json''
                    then errorJSON notFoundStatus
                  else http_Error ''Not Found'' 404)"
    by (rule no_handler_unimplemented_or_not_found
          [THEN conjunct2, THEN conjunct1, THEN mp, OF p1, THEN conjunct1])
  then have h1: "ServerMux_ServeHTTP testWire (configured ?calls) ?r1 = Some (errorJSON notFoundStatus)"
    by (simp add: testRequest_def Header_Get_def)
  have p2: "mux_entries (configured ?calls) Traces = Some ?e \<and> e_h ?e = None
            \<and> r_Path ?r2 = signalPath Traces"
    using t by (simp add: testRequest_def)
  have p3: "r_Method ?r2 = ''POST'' \<and> r_Body ?r2 = Inr ''{}''"
    by (simp add: testRequest_def)
  have p4: "Header_Get (r_Header ?r2) ''Content-Type'' = ''application/json''
            \<and> protojson_Unmarshal testWire ''{}'' = Inr 2"
    by (simp add: testRequest_def Header_Get_def testWire_def protojson_Unmarshal_def)
  have h2: "ServerMux_ServeHTTP testWire (configured ?calls) ?r2 = Some (errorJSON unimplementedStatus)"
    by (rule no_handler_unimplemented_or_not_found
          [THEN conjunct2, THEN conjunct2, THEN mp, OF p2, THEN conjunct2, THEN mp, OF p3,
           THEN conjunct2, THEN mp, OF p4])
  show ?thesis using n g m h1 h2 by simp
qed

text \<open>
  Claim C8, as the code has it.  A POST with content type \<open>application/x-protobuf\<close> and a
  body of zero bytes decodes to the zero-valued request, and the response is the one the
  handler's outcome on that request determines (200 with its response when it returns
  one).  A POST with content type \<open>application/json\<close> and a body of zero bytes does not
  decode: the handler is not called and the answer is InvalidArgument, HTTP 400.
\<close>

theorem zero_body_proto_accepted_json_rejected:
  "(r_Method r = ''POST'' \<and> r_Body r = Inr []
      \<and> Header_Get (r_Header r) ''Content-Type'' = ''application/x-protobuf'' \<longrightarrow>
      proto_Unmarshal wire [] = Inr (wire_zero wire)
      \<and> proxyHandler_ServeHTTP wire handler r
        = (case handler (r_Context r) (wire_zero wire) of
             Fail e \<Rightarrow>
               (case e of
                  StatusErr st \<Rightarrow> Some (errorProto st)
                | PlainErr msg \<Rightarrow>
                    Some (errorProto \<lparr>st_Code = Internal, st_Message = msg, st_Details = []\<rparr>))
           | Panic \<Rightarrow> None
           | Return resp \<Rightarrow>
               Some \<lparr>w_Status = 200, w_ContentType = ''application/x-protobuf'',
                     w_Body = ProtoBytes resp\<rparr>))
   \<and> (r_Method r = ''POST'' \<and> r_Body r = Inr []
      \<and> Header_Get (r_Header r) ''Content-Type'' = ''application/json'' \<longrightarrow>
      (\<exists>reason. proxyHandler_ServeHTTP wire handler r
         = Some \<lparr>w_Status = 400, w_ContentType = ''application/json'',
                 w_Body = StatusJSONBytes \<lparr>st_Code = InvalidArgument,
                            st_Message = ''Unable to unmarshal request body'',
                            st_Details = [reason]\<rparr>\<rparr>))"
  by (simp add: proxyHandler_ServeHTTP_def serveHTTPWithProto_def serveHTTPWithJSON_def
        proto_Unmarshal_def protojson_Unmarshal_def errorJSON_def)

text \<open>
  Claim C8 as stated fails for JSON: the zero-byte body is rejected with status 400, with
  a handler that would accept any request.
\<close>

theorem zero_body_json_counterexample:
  "proxyHandler_ServeHTTP testWire (\<lambda>ctx req. Return ctx) (testRequest ''application/json'' [])
     = Some \<lparr>w_Status = 400, w_ContentType = ''application/json'',
             w_Body = StatusJSONBytes \<lparr>st_Code = InvalidArgument,
                        st_Message = ''Unable to unmarshal request body'',
                        st_Details = [''syntax error (line 1:1): unexpected token'']\<rparr>\<rparr>"
  by (simp add: proxyHandler_ServeHTTP_def serveHTTPWithJSON_def protojson_Unmarshal_def
        errorJSON_def testRequest_def Header_Get_def)

theorem zero_body_proto_accepted_json_rejected_witness:
  "proxyHandler_ServeHTTP testWire (\<lambda>ctx req. Return (WithValue ''request'' (if req = (0::nat) then ''zero'' else ''other'') # ctx))
       (testRequest ''application/x-protobuf'' [])
     = Some \<lparr>w_Status = 200, w_ContentType = ''application/x-protobuf'',
             w_Body = ProtoBytes [WithValue ''request'' ''zero'']\<rparr>
   \<and> map_option w_Status
        (proxyHandler_ServeHTTP testWire (\<lambda>ctx req. Return (WithValue ''request'' (if req = (0::nat) then ''zero'' else ''other'') # ctx))
           (testRequest ''application/json'' [])) = Some 400"
proof -
  let ?h = "\<lambda>(ctx :: Context) (req :: nat). Return (WithValue ''request'' (if req = 0 then ''zero'' else ''other'') # ctx) :: Context outcome"
  note t1 = zero_body_proto_accepted_json_rejected[where r = "testRequest ''application/x-protobuf'' []"
      and wire = testWire and handler = ?h]
  note t2 = zero_body_proto_accepted_json_rejected[where r = "testRequest ''application/json'' []"
      and wire = testWire and handler = ?h]
  have a: "proxyHandler_ServeHTTP testWire ?h (testRequest ''application/x-protobuf'' [])
     = Some \<lparr>w_Status = 200, w_ContentType = ''application/x-protobuf'',
             w_Body = ProtoBytes [WithValue ''request'' ''zero'']\<rparr>"
    using t1 by (simp add: testRequest_def Header_Get_def testWire_def)
  have b: "map_option w_Status (proxyHandler_ServeHTTP testWire ?h (testRequest ''application/json'' [])) = Some 400"
    using t2 by (auto simp add: testRequest_def Header_Get_def)
  show ?thesis using a b by simp
qed


section \<open>Properties of the client\<close>

lemma Stop_conns: "c_conns (fst (Stop ctxErr close c)) = []"
  by (simp add: Stop_def Let_def)

lemma neverOpened_conns:
  "c_conns c = [] \<Longrightarrow> neverOpened c ks \<Longrightarrow> c_conns (foldl clientCall c ks) = []"
proof (induction ks arbitrary: c)
  case Nil
  then show ?case by simp
next
  case (Cons k ks)
  have "c_conns (clientCall c k) = []"
    using Cons.prems by (cases k) (simp_all add: Stop_conns)
  moreover have "neverOpened (clientCall c k) ks" using Cons.prems by simp
  ultimately show ?case using Cons.IH by simp
qed

lemma Stop_empty: "c_conns c = [] \<Longrightarrow> snd (Stop ctxErr close c) = Some ErrAlreadyClosed"
  by (simp add: Stop_def)

lemma upload_not_started:
  assumes "isGRPCProtocol (signalOptions (c_o c) s)"
      and "map_of (c_conns c) (so_connHash (signalOptions (c_o c) s)) = None
           \<or> map_of (c_conns c) (so_connHash (signalOptions (c_o c) s)) = Some None"
  shows "Upload export do decodeProto decodeJSON c s protoData = Some ErrNotStarted"
  using assms by (auto simp: Upload_def uploadWithGRPC_def)

text \<open>
  Claim C9.  For a signal on the gRPC protocol an upload returns the not-started error
  while the connection table has no channel for the signal's fingerprint, in particular
  on a new client before \<open>Start\<close>.  \<open>Stop\<close> returns the already-closed error when the
  connection table is empty: on a new client, after any history of calls in which no
  channel was opened, and when called again after a \<open>Stop\<close>.
\<close>

theorem lifecycle_errors:
  "(isGRPCProtocol (signalOptions (c_o c) s)
      \<and> (map_of (c_conns c) (so_connHash (signalOptions (c_o c) s)) = None
         \<or> map_of (c_conns c) (so_connHash (signalOptions (c_o c) s)) = Some None) \<longrightarrow>
      Upload export do decodeProto decodeJSON c s protoData = Some ErrNotStarted)
   \<and> (isGRPCProtocol (signalOptions o' s) \<longrightarrow>
      Upload export do decodeProto decodeJSON (newClient o') s protoData = Some ErrNotStarted)
   \<and> (c_conns c = [] \<longrightarrow> snd (Stop ctxErr close c) = Some ErrAlreadyClosed)
   \<and> (neverOpened (newClient o') ks \<longrightarrow>
      snd (Stop ctxErr close (foldl clientCall (newClient o') ks)) = Some ErrAlreadyClosed)
   \<and> snd (Stop ctxErrB closeB (fst (Stop ctxErr close c))) = Some ErrAlreadyClosed"
proof (intro conjI impI)
  assume "isGRPCProtocol (signalOptions (c_o c) s)
      \<and> (map_of (c_conns c) (so_connHash (signalOptions (c_o c) s)) = None
         \<or> map_of (c_conns c) (so_connHash (signalOptions (c_o c) s)) = Some None)"
  then have a: "isGRPCProtocol (signalOptions (c_o c) s)"
    and b: "map_of (c_conns c) (so_connHash (signalOptions (c_o c) s)) = None
         \<or> map_of (c_conns c) (so_connHash (signalOptions (c_o c) s)) = Some None"
    by simp_all
  show "Upload export do decodeProto decodeJSON c s protoData = Some ErrNotStarted"
    by (rule upload_not_started[OF a b])
next
  assume "isGRPCProtocol (signalOptions o' s)"
  then show "Upload export do decodeProto decodeJSON (newClient o') s protoData = Some ErrNotStarted"
    by (intro upload_not_started) (simp_all add: newClient_def)
next
  assume "c_conns c = []"
  then show "snd (Stop ctxErr close c) = Some ErrAlreadyClosed" by (rule Stop_empty)
next
  assume "neverOpened (newClient o') ks"
  then have "c_conns (foldl clientCall (newClient o') ks) = []"
    by (intro neverOpened_conns) (simp_all add: newClient_def)
  then show "snd (Stop ctxErr close (foldl clientCall (newClient o') ks)) = Some ErrAlreadyClosed"
    by (rule Stop_empty)
next
  show "snd (Stop ctxErrB closeB (fst (Stop ctxErr close c))) = Some ErrAlreadyClosed"
    by (rule Stop_empty) (rule Stop_conns)
qed

theorem lifecycle_errors_witness:
  "Upload (\<lambda>conn req. (None, None)) (\<lambda>u ct req. Inl ''refused'') Inl Inl
       (newClient testOptions :: nat Client) Traces ''spans'' = Some ErrNotStarted
   \<and> snd (Stop None (\<lambda>conn. None) (newClient testOptions :: nat Client)) = Some ErrAlreadyClosed
   \<and> neverOpened (newClient testOptions :: nat Client) [CallStart (\<lambda>so. Inl ''refused'')]
   \<and> snd (Stop None (\<lambda>conn. None)
            (foldl clientCall (newClient testOptions :: nat Client) [CallStart (\<lambda>so. Inl ''refused'')]))
        = Some ErrAlreadyClosed"
proof -
  let ?c = "newClient testOptions :: nat Client"
  let ?ks = "[CallStart (\<lambda>so. Inl ''refused'')] :: nat client_call list"
  note T = lifecycle_errors[where c = ?c and o' = testOptions and s = Traces
      and export = "\<lambda>conn req. (None, None)" and do = "\<lambda>u ct req. Inl ''refused''"
      and decodeProto = Inl and decodeJSON = Inl and protoData = "''spans''"
      and ctxErr = None and close = "\<lambda>conn. None" and ks = ?ks
      and ctxErrB = None and closeB = "\<lambda>conn. None"]
  have g: "isGRPCProtocol (signalOptions testOptions Traces)"
    by (simp add: isGRPCProtocol_def testOptions_def)
  have e: "c_conns ?c = []" by (simp add: newClient_def)
  have n: "neverOpened ?c ?ks"
    by (simp add: newClient_def Start_def startGRPC_def isGRPCProtocol_def testOptions_def)
  have u: "Upload (\<lambda>conn req. (None, None)) (\<lambda>u ct req. Inl ''refused'') Inl Inl ?c Traces ''spans''
             = Some ErrNotStarted"
    by (rule T[THEN conjunct2, THEN conjunct1, THEN mp, OF g])
  have s1: "snd (Stop None (\<lambda>conn. None) ?c) = Some ErrAlreadyClosed"
    by (rule T[THEN conjunct2, THEN conjunct2, THEN conjunct1, THEN mp, OF e])
  have s2: "snd (Stop None (\<lambda>conn. None) (foldl clientCall ?c ?ks)) = Some ErrAlreadyClosed"
    by (rule T[THEN conjunct2, THEN conjunct2, THEN conjunct2, THEN conjunct1, THEN mp, OF n])
  show ?thesis using u s1 n s2 by simp
qed

text \<open>
  Claim C10.  When the export call over gRPC returns a response (with no error, or an
  error whose status code is OK), or the HTTP exchange returns status 200 with a body that
  decodes under its content type, and the response carries a partial-success sub-message,
  whatever its rejected count and error message, the upload returns the partial-success
  error of the signal, from which the response is read back.
\<close>

theorem partial_success_is_error:
  "(isGRPCProtocol (signalOptions (c_o c) s)
      \<and> map_of (c_conns c) (so_connHash (signalOptions (c_o c) s)) = Some (Some conn)
      \<and> export conn protoData = (Some resp, e) \<and> (e = None \<or> status_Code e = OK)
      \<and> PartialSuccess resp = Some ps \<longrightarrow>
      Upload export do decodeProto decodeJSON c s protoData = Some (UploadPartialSuccessError s resp)
      \<and> errorResponse (UploadPartialSuccessError s resp) = Some resp)
   \<and> (\<not> isGRPCProtocol (signalOptions (c_o c) s)
      \<and> do (so_endpoint (signalOptions (c_o c) s)) (httpContentType (signalOptions (c_o c) s)) protoData
          = Inr hresp
      \<and> hr_StatusCode hresp = 200 \<and> hr_Body hresp = Inr respBody
      \<and> (hr_ContentType hresp = ''application/x-protobuf'' \<and> decodeProto respBody = Inr resp
         \<or> hr_ContentType hresp = ''application/json'' \<and> decodeJSON respBody = Inr resp)
      \<and> PartialSuccess resp = Some ps \<longrightarrow>
      Upload export do decodeProto decodeJSON c s protoData = Some (UploadPartialSuccessError s resp)
      \<and> errorResponse (UploadPartialSuccessError s resp) = Some resp)"
  by (auto simp: Upload_def uploadWithGRPC_def uploadWithHTTP_def Let_def)

theorem partial_success_is_error_witness:
  "Upload (\<lambda>conn req. (Some emptyPartialSuccess, None)) (\<lambda>u ct req. Inl ''refused'') Inl Inl
       (fst (Start (\<lambda>so. Inr (1 :: nat)) (newClient testOptions))) Traces ''spans''
     = Some (UploadPartialSuccessError Traces emptyPartialSuccess)
   \<and> Upload (\<lambda>conn req. (None, None))
       (\<lambda>u ct req. Inr \<lparr>hr_StatusCode = 200, hr_ContentType = ''application/json'',
                          hr_Body = Inr ''{\"partialSuccess\":{}}''\<rparr>)
       Inl (\<lambda>b. Inr emptyPartialSuccess)
       (newClient testOptions :: nat Client) Metrics ''metrics''
     = Some (UploadPartialSuccessError Metrics emptyPartialSuccess)
   \<and> errorResponse (UploadPartialSuccessError Metrics emptyPartialSuccess) = Some emptyPartialSuccess"
proof -
  let ?c1 = "fst (Start (\<lambda>so. Inr (1 :: nat)) (newClient testOptions))"
  let ?c0 = "newClient testOptions :: nat Client"
  let ?do = "\<lambda>(u :: string) (ct :: string) (req :: string).
               Inr \<lparr>hr_StatusCode = 200, hr_ContentType = ''application/json'',
                    hr_Body = Inr ''{\"partialSuccess\":{}}''\<rparr> :: string + http_response"
  have c1: "c_o ?c1 = testOptions" "c_conns ?c1 = [(''c0ffee'', Some 1)]"
    by (simp_all add: Start_def startGRPC_def newClient_def isGRPCProtocol_def testOptions_def Let_def)
  have p1: "isGRPCProtocol (signalOptions (c_o ?c1) Traces)
      \<and> map_of (c_conns ?c1) (so_connHash (signalOptions (c_o ?c1) Traces)) = Some (Some 1)
      \<and> (\<lambda>conn req. (Some emptyPartialSuccess, None)) (1 :: nat) ''spans'' = (Some emptyPartialSuccess, None)
      \<and> ((None :: err option) = None \<or> status_Code None = OK)
      \<and> PartialSuccess emptyPartialSuccess = Some \<lparr>ps_Rejected = 0, ps_ErrorMessage = []\<rparr>"
    unfolding c1 by (simp add: isGRPCProtocol_def testOptions_def emptyPartialSuccess_def)
  have u1: "Upload (\<lambda>conn req. (Some emptyPartialSuccess, None)) (\<lambda>u ct req. Inl ''refused'') Inl Inl
       ?c1 Traces ''spans'' = Some (UploadPartialSuccessError Traces emptyPartialSuccess)"
    by (rule partial_success_is_error[where c = ?c1 and s = Traces and conn = 1
          and export = "\<lambda>conn req. (Some emptyPartialSuccess, None)" and protoData = "''spans''"
          and resp = emptyPartialSuccess and e = None
          and ps = "\<lparr>ps_Rejected = 0, ps_ErrorMessage = []\<rparr>"
          and do = "\<lambda>u ct req. Inl ''refused''" and decodeProto = Inl and decodeJSON = Inl,
          THEN conjunct1, THEN mp, OF p1, THEN conjunct1])
  have p2: "\<not> isGRPCProtocol (signalOptions (c_o ?c0) Metrics)
      \<and> ?do (so_endpoint (signalOptions (c_o ?c0) Metrics)) (httpContentType (signalOptions (c_o ?c0) Metrics)) ''metrics''
          = Inr \<lparr>hr_StatusCode = 200, hr_ContentType = ''application/json'',
                 hr_Body = Inr ''{\"partialSuccess\":{}}''\<rparr>
      \<and> hr_StatusCode \<lparr>hr_StatusCode = 200, hr_ContentType = ''application/json'',
                 hr_Body = Inr ''{\"partialSuccess\":{}}''\<rparr> = 200
      \<and> hr_Body \<lparr>hr_StatusCode = 200, hr_ContentType = ''application/json'',
                 hr_Body = Inr ''{\"partialSuccess\":{}}''\<rparr> = Inr ''{\"partialSuccess\":{}}''
      \<and> (hr_ContentType \<lparr>hr_StatusCode = 200, hr_ContentType = ''application/json'',
                 hr_Body = Inr ''{\"partialSuccess\":{}}''\<rparr> = ''application/x-protobuf''
           \<and> (Inl :: string \<Rightarrow> string + export_response) ''{\"partialSuccess\":{}}'' = Inr emptyPartialSuccess
         \<or> hr_ContentType \<lparr>hr_StatusCode = 200, hr_ContentType = ''application/json'',
                 hr_Body = Inr ''{\"partialSuccess\":{}}''\<rparr> = ''application/json''
           \<and> (\<lambda>b. Inr emptyPartialSuccess) ''{\"partialSuccess\":{}}'' = (Inr emptyPartialSuccess :: string + export_response))
      \<and> PartialSuccess emptyPartialSuccess = Some \<lparr>ps_Rejected = 0, ps_ErrorMessage = []\<rparr>"
    by (simp add: newClient_def isGRPCProtocol_def testOptions_def emptyPartialSuccess_def)
  have u2: "Upload (\<lambda>conn req. (None, None)) ?do Inl (\<lambda>b. Inr emptyPartialSuccess) ?c0 Metrics ''metrics''
     = Some (UploadPartialSuccessError Metrics emptyPartialSuccess)"
    by (rule partial_success_is_error[where c = ?c0 and s = Metrics
          and export = "\<lambda>conn req. (None, None)" and protoData = "''metrics''"
          and resp = emptyPartialSuccess
          and ps = "\<lparr>ps_Rejected = 0, ps_ErrorMessage = []\<rparr>"
          and do = ?do and decodeProto = Inl and decodeJSON = "\<lambda>b. Inr emptyPartialSuccess"
          and hresp = "\<lparr>hr_StatusCode = 200, hr_ContentType = ''application/json'',
                 hr_Body = Inr ''{\"partialSuccess\":{}}''\<rparr>"
          and respBody = "''{\"partialSuccess\":{}}''",
          THEN conjunct2, THEN mp, OF p2, THEN conjunct1])
  show ?thesis using u1 u2 by simp
qed


section \<open>Properties of the JSON codec\<close>

lemma hex_EncodeToString_length: "length (hex_EncodeToString bs) = 2 * length bs"
  by (induction bs) (simp_all add: hex_EncodeToString_def)

lemma ToUpper_length: "length (ToUpper s) = length s"
  by (simp add: ToUpper_def)

lemma keyIsTraceIDOrSpanID_cases:
  "keyIsTraceIDOrSpanID k = (16, 24, True) \<or> keyIsTraceIDOrSpanID k = (8, 12, True)
   \<or> keyIsTraceIDOrSpanID k = (0, 0, False)"
  by (simp add: keyIsTraceIDOrSpanID_def Let_def)

lemma base64ToHexString_trace: "base64ToHexString 16 24 s = s"
  by (simp add: base64ToHexString_def Let_def hex_EncodeToString_length ToUpper_length
           split: option.splits)

lemma base64ToHexString_span: "base64ToHexString 8 12 s = s"
  by (simp add: base64ToHexString_def Let_def hex_EncodeToString_length ToUpper_length
           split: option.splits)

lemma encode_map_identity:
  assumes "\<And>k v. (k, v) \<in> set data \<Longrightarrow> convertTraceIDAndSpanIDBase64ToHexForAny v = v"
  shows "convertTraceIDAndSpanIDBase64ToHexForMap data = data"
  using assms
proof (induction data)
  case Nil
  then show ?case by simp
next
  case (Cons kv data)
  obtain k v where kv: "kv = (k, v)" by (cases kv)
  have v: "convertTraceIDAndSpanIDBase64ToHexForAny v = v" using Cons.prems[of k v] kv by simp
  have rest: "convertTraceIDAndSpanIDBase64ToHexForMap data = data"
    by (rule Cons.IH) (use Cons.prems in auto)
  show ?case
    using keyIsTraceIDOrSpanID_cases[of k] v rest
    by (auto simp: kv base64ToHexString_trace base64ToHexString_span split: json.splits)
qed

lemma encode_conversion_is_identity:
  "convertTraceIDAndSpanIDBase64ToHexForAny (t :: 'n json) = t"
proof (induction t)
  case (JArray xs)
  then show ?case by (simp add: map_idI)
next
  case (JObject data)
  have "convertTraceIDAndSpanIDBase64ToHexForMap data = data"
  proof (rule encode_map_identity)
    fix k v assume "(k, v) \<in> set data"
    then show "convertTraceIDAndSpanIDBase64ToHexForAny v = v"
      using JObject by fastforce
  qed
  then show ?case by simp
qed simp_all

lemma trace_id_decodes:
  "map_option (ToUpper \<circ> hex_EncodeToString) (base64_DecodeString ''W47/95gDgQPSabYzgT/GDA=='')
     = Some ''5B8EFFF798038103D269B633813FC60C''"
  by (simp add: base64_DecodeString_def decodeMap_def hex_EncodeToString_def hextable_def ToUpper_def)

lemma trace_id_length:
  "map_option length (base64_DecodeString ''W47/95gDgQPSabYzgT/GDA=='') = Some 16"
  by (simp add: base64_DecodeString_def decodeMap_def)

lemma traceId_key: "keyIsTraceIDOrSpanID ''traceId'' = (16, 24, True)"
  by (simp add: keyIsTraceIDOrSpanID_def removeUnderscores_def ToLower_def)

text \<open>
  Claim C2.  The claim asks that a string under an identifier key, when it is the base64
  text of 16 bytes (trace) or 8 bytes (span), leaves the encoder as upper-case
  hexadecimal.  The loop compares the number of decoded bytes with \<open>base64Bytes\<close> (24
  or 12, the length of the base64 text) and the length of the hexadecimal text with
  \<open>hexBytes\<close> (16 or 8, the number of bytes): the two tests cannot both pass, and the
  conversion leaves every tree as it is.  At the trace identifier of the repository's
  fixture, 16 bytes whose hexadecimal text is 5B8EFFF798038103D269B633813FC60C, the
  value stays in base64.
\<close>

theorem encode_leaves_identifiers_in_base64:
  "convertTraceIDAndSpanIDBase64ToHexForAny (t :: 'n json) = t
   \<and> keyIsTraceIDOrSpanID ''traceId'' = (16, 24, True)
   \<and> map_option length (base64_DecodeString ''W47/95gDgQPSabYzgT/GDA=='') = Some 16
   \<and> map_option (ToUpper \<circ> hex_EncodeToString) (base64_DecodeString ''W47/95gDgQPSabYzgT/GDA=='')
       = Some ''5B8EFFF798038103D269B633813FC60C''
   \<and> convertTraceIDAndSpanIDBase64ToHexForAny
         (JObject [(''traceId'', JString ''W47/95gDgQPSabYzgT/GDA=='')] :: 'n json)
       = JObject [(''traceId'', JString ''W47/95gDgQPSabYzgT/GDA=='')]"
  by (simp only: encode_conversion_is_identity trace_id_decodes trace_id_length traceId_key simp_thms)

end
